theory Spec2Isabelle
  imports Main "HOL-Library.AList" "HOL-Library.Sublist"
begin

section \<open>Values, thrown values and observable events\<close>

text \<open>
  A JavaScript value as far as \<^verbatim>\<open>main.ts\<close> inspects one. A number is kept as its
  canonical text (what \<^verbatim>\<open>String(n)\<close> gives). An object is a plain object, as
  \<^verbatim>\<open>JSON.parse\<close> or an object literal builds one: the list of its own properties in
  creation order, none of them a function.
\<close>

datatype jsval =
    JUndefined
  | JNull
  | JBool bool
  | JNum string
  | JStr string
  | JArr "jsval list"
  | JObj "(string \<times> jsval) list"

type_synonym obj = "(string \<times> jsval) list"

text \<open>
  What a \<^verbatim>\<open>throw\<close> or a rejected promise carries: an instance of \<^verbatim>\<open>Error\<close>
  (with its message; \<^verbatim>\<open>SyntaxError\<close> and \<^verbatim>\<open>TypeError\<close> are instances too),
  or any other value.
\<close>

datatype thrown = Error string | NonError jsval

text \<open>
  \<^verbatim>\<open>UpdateResult = UpdateItem | UpdateItem[]\<close>: one item or an array of items;
  each item is an object.
\<close>

datatype UpdateResult = Single obj | Many "obj list"

text \<open>
  The effects of a run, in the order they happen:
  \<^verbatim>\<open>core.info\<close>, \<^verbatim>\<open>core.setOutput\<close>, \<^verbatim>\<open>core.setFailed\<close>,
  a call of \<^verbatim>\<open>client.execute_and_poll\<close> (operation and payload), and a call of
  \<^verbatim>\<open>writeFile\<close> with flag \<^verbatim>\<open>'a'\<close> (path and appended text). The three
  \<^verbatim>\<open>core\<close> functions are taken to return normally.
\<close>

datatype event =
    Info string
  | SetOutput string jsval
  | SetFailed string
  | Execute string jsval
  | WriteFile string string

text \<open>
  The client handle: given the number of calls already made through it, the operation
  and the payload, the awaited call either rejects or resolves to a result.
\<close>

type_synonym client = "nat \<Rightarrow> string \<Rightarrow> jsval \<Rightarrow> thrown + UpdateResult"

text \<open>
  Everything outside \<^verbatim>\<open>main.ts\<close> that a run consults:
  \<^verbatim>\<open>core.getInput(name, {required})\<close> (returns the input's text or throws),
  \<^verbatim>\<open>JSON.parse\<close>, \<^verbatim>\<open>process.env\<close>, the \<^verbatim>\<open>KomodoClient\<close> constructor
  (URL, key, secret) and \<^verbatim>\<open>writeFile\<close>, which may reject.
\<close>

record env =
  getInput :: "string \<Rightarrow> bool \<Rightarrow> thrown + string"
  JSON_parse :: "string \<Rightarrow> thrown + jsval"
  process_env :: "string \<rightharpoonup> string"
  KomodoClient :: "string \<Rightarrow> string \<Rightarrow> string \<Rightarrow> client"
  writeFile :: "string \<Rightarrow> string \<Rightarrow> thrown option"

text \<open>
  A computation inside the \<^verbatim>\<open>try\<close> block: the events it caused, and either the
  value thrown or its result.
\<close>

type_synonym 'a action = "event list \<times> (thrown + 'a)"

definition ret :: "'a \<Rightarrow> 'a action" where
  "ret x = ([], Inr x)"

definition throw :: "thrown \<Rightarrow> 'a action" where
  "throw t = ([], Inl t)"

definition emit :: "event \<Rightarrow> unit action" where
  "emit ev = ([ev], Inr ())"

definition lift :: "thrown + 'a \<Rightarrow> 'a action" where
  "lift r = ([], r)"

definition bind :: "'a action \<Rightarrow> ('a \<Rightarrow> 'b action) \<Rightarrow> 'b action" where
  "bind m f =
     (case m of
        (evs, Inl t) \<Rightarrow> (evs, Inl t)
      | (evs, Inr x) \<Rightarrow> (case f x of (evs', r) \<Rightarrow> (evs @ evs', r)))"

definition seq :: "unit action \<Rightarrow> 'b action \<Rightarrow> 'b action" where
  "seq m k = bind m (\<lambda>_. k)"

section \<open>String conversions\<close>

text \<open>
  \<^verbatim>\<open>String(v)\<close>, as a template literal applies it, and the text of an array's
  \<^verbatim>\<open>join\<close>, where \<^verbatim>\<open>undefined\<close> and \<^verbatim>\<open>null\<close> give the empty string. A plain
  object converts through \<^verbatim>\<open>Object.prototype.toString\<close>, unless an own property
  \<^verbatim>\<open>toString\<close> hides that method: the own property is not callable, the inherited
  \<^verbatim>\<open>valueOf\<close> gives back the object, and the conversion throws a \<^verbatim>\<open>TypeError\<close>.
\<close>

definition not_primitive :: thrown where
  "not_primitive = Error ''Cannot convert object to primitive value''"

fun ToString :: "jsval \<Rightarrow> thrown + string"
  and join_js :: "jsval list \<Rightarrow> string \<Rightarrow> thrown + string" where
  "ToString JUndefined = Inr ''undefined''"
| "ToString JNull = Inr ''null''"
| "ToString (JBool b) = Inr (if b then ''true'' else ''false'')"
| "ToString (JNum s) = Inr s"
| "ToString (JStr s) = Inr s"
| "ToString (JArr xs) = join_js xs '',''"
| "ToString (JObj fs) =
     (if map_of fs ''toString'' \<noteq> None then Inl not_primitive else Inr ''[object Object]'')"
| "join_js [] sep = Inr []"
| "join_js (x # xs) sep =
     (case (if x = JUndefined \<or> x = JNull then Inr [] else ToString x) of
        Inl err \<Rightarrow> Inl err
      | Inr first \<Rightarrow>
          (if xs = [] then Inr first
           else case join_js xs sep of
                  Inl err \<Rightarrow> Inl err
                | Inr others \<Rightarrow> Inr (first @ sep @ others)))"

text \<open>The non-ASCII characters of the log and summary texts, as UTF-8 bytes.\<close>

definition rocket :: string where
  "rocket = [CHR 0xF0, CHR 0x9F, CHR 0x9A, CHR 0x80]"

definition arrow :: string where
  "arrow = [CHR 0xE2, CHR 0x86, CHR 0x92]"

definition test_tube :: string where
  "test_tube = [CHR 0xF0, CHR 0x9F, CHR 0xA7, CHR 0xAA]"

definition memo :: string where
  "memo = [CHR 0xF0, CHR 0x9F, CHR 0x93, CHR 0x9D]"

definition newline :: string where
  "newline = [CHR 0x0A]"

section \<open>The result filter and the status mapping\<close>

definition get_field :: "obj \<Rightarrow> string \<Rightarrow> jsval" where
  "get_field item k = (case map_of item k of None \<Rightarrow> JUndefined | Some v \<Rightarrow> v)"

text \<open>\<^verbatim>\<open>item._id?.$oid\<close>: \<^verbatim>\<open>undefined\<close> unless \<^verbatim>\<open>_id\<close> is an object with that property.\<close>

definition oid :: "obj \<Rightarrow> jsval" where
  "oid item =
     (case get_field item ''_id'' of
        JObj fs \<Rightarrow> get_field fs ''$oid''
      | _ \<Rightarrow> JUndefined)"

definition is_string :: "jsval \<Rightarrow> bool" where
  "is_string v = (case v of JStr _ \<Rightarrow> True | _ \<Rightarrow> False)"

text \<open>\<^verbatim>\<open>'operation' in item && typeof item._id?.$oid === 'string'\<close>\<close>

definition hasOid :: "obj \<Rightarrow> bool" where
  "hasOid item = (map_of item ''operation'' \<noteq> None \<and> is_string (oid item))"

text \<open>
  \<^verbatim>\<open>acc[key] = value\<close> on the accumulator, a plain object that starts as \<^verbatim>\<open>{}\<close>:
  its own properties in creation order, and whether the \<^verbatim>\<open>__proto__\<close> setter of
  \<^verbatim>\<open>Object.prototype\<close> is still what a lookup of \<^verbatim>\<open>__proto__\<close> finds. An assignment
  to an existing own property keeps its place and replaces its value; a new property goes
  last. An assignment to \<^verbatim>\<open>__proto__\<close> that finds the setter creates no own property:
  it replaces the prototype when the value is an object or \<^verbatim>\<open>null\<close>, after which the
  setter is out of reach if the new prototype is \<^verbatim>\<open>null\<close> or has an own property
  \<^verbatim>\<open>__proto__\<close>.
\<close>

definition assign :: "obj \<times> bool \<Rightarrow> string \<Rightarrow> jsval \<Rightarrow> obj \<times> bool" where
  "assign acc key v =
     (case acc of (own, setter) \<Rightarrow>
        if key = ''__proto__'' \<and> setter \<and> map_of own key = None
        then (own, case v of
                     JNull \<Rightarrow> False
                   | JObj fs \<Rightarrow> map_of fs ''__proto__'' = None
                   | _ \<Rightarrow> True)
        else (AList.update key v own, setter))"

text \<open>
  \<^verbatim>\<open>results.filter(hasOid).reduce((acc, update) => { acc[update._id.$oid] = update.status; return acc }, {})\<close>.
  The filter leaves only records whose identifier is a string, so the step is never run
  on any other record.
\<close>

definition updateStatusMap :: "obj list \<Rightarrow> obj" where
  "updateStatusMap results =
     fst (foldl (\<lambda>acc update.
                  case oid update of
                    JStr key \<Rightarrow> assign acc key (get_field update ''status'')
                  | _ \<Rightarrow> acc)
            ([], True) (filter hasOid results))"

text \<open>
  \<^verbatim>\<open>Object.entries\<close>: the own properties whose names are array indices (canonical
  decimal numerals below \<^verbatim>\<open>2^32 - 1\<close>) in ascending numeric order, then the others in
  creation order.
\<close>

definition decimal :: "string \<Rightarrow> int" where
  "decimal key = foldl (\<lambda>n c. 10 * n + (of_char c - 48)) 0 key"

definition is_digit :: "char \<Rightarrow> bool" where
  "is_digit c = (48 \<le> (of_char c :: int) \<and> (of_char c :: int) \<le> 57)"

definition is_array_index :: "string \<Rightarrow> bool" where
  "is_array_index key =
     (case key of
        [] \<Rightarrow> False
      | c # cs \<Rightarrow> (c \<noteq> CHR ''0'' \<or> cs = []) \<and> list_all is_digit key
                 \<and> decimal key < 4294967295)"

definition Object_entries :: "obj \<Rightarrow> (string \<times> jsval) list" where
  "Object_entries own =
     sort_key (\<lambda>(key, v). decimal key) (filter (\<lambda>(key, v). is_array_index key) own)
     @ filter (\<lambda>(key, v). \<not> is_array_index key) own"

section \<open>The summary\<close>

definition summary_header :: string where
  "summary_header =
     ''### '' @ memo @ '' Komodo Deployment Summary'' @ newline @ newline
     @ ''| Update ID | Status |'' @ newline
     @ ''|-----------|--------|'' @ newline"

text \<open>The loop that appends one row per entry; converting a status to text may throw.\<close>

fun summary_rows :: "(string \<times> jsval) list \<Rightarrow> string \<Rightarrow> thrown + string" where
  "summary_rows [] markdown = Inr markdown"
| "summary_rows ((ident, status) # rest) markdown =
     (case ToString status of
        Inl err \<Rightarrow> Inl err
      | Inr text \<Rightarrow> summary_rows rest (markdown @ ''| '' @ ident @ '' | '' @ text @ '' |'' @ newline))"

definition summary_markdown :: "obj \<Rightarrow> thrown + string" where
  "summary_markdown m = summary_rows (Object_entries m) summary_header"

definition writeStepSummary :: "env \<Rightarrow> obj \<Rightarrow> unit action" where
  "writeStepSummary e m =
     (case process_env e ''GITHUB_STEP_SUMMARY'' of
        None \<Rightarrow> ret ()
      | Some summaryFile \<Rightarrow>
          if summaryFile = [] then ret ()
          else bind (lift (summary_markdown m)) (\<lambda>markdown.
               seq (emit (WriteFile summaryFile markdown))
                 (case writeFile e summaryFile markdown of
                    None \<Rightarrow> ret ()
                  | Some t \<Rightarrow> throw t)))"

section \<open>Dispatch\<close>

text \<open>
  \<^verbatim>\<open>executeOne(client, kind, name)\<close>; the client is the handle at its next call.
\<close>

definition executeOne ::
  "(string \<Rightarrow> jsval \<Rightarrow> thrown + UpdateResult) \<Rightarrow> string \<Rightarrow> jsval \<Rightarrow> UpdateResult action" where
  "executeOne cl kind name =
     (if kind = ''stack'' then
        seq (emit (Execute ''DeployStack'' (JObj [(''stack'', name)])))
          (lift (cl ''DeployStack'' (JObj [(''stack'', name)])))
      else if kind = ''procedure'' then
        seq (emit (Execute ''RunProcedure'' (JObj [(''procedure'', name)])))
          (lift (cl ''RunProcedure'' (JObj [(''procedure'', name)])))
      else throw (Error (''Unsupported kind: '' @ kind)))"

definition push_result :: "obj list \<Rightarrow> UpdateResult \<Rightarrow> obj list" where
  "push_result results result =
     (case result of Many items \<Rightarrow> results @ items | Single item \<Rightarrow> results @ [item])"

text \<open>
  The \<^verbatim>\<open>for (const name of patterns)\<close> loop; \<open>n\<close> counts the calls already made
  through the client, \<open>results\<close> is the array being filled.
\<close>

fun dispatch :: "client \<Rightarrow> string \<Rightarrow> jsval list \<Rightarrow> nat \<Rightarrow> obj list \<Rightarrow> (obj list) action" where
  "dispatch cl kind [] n results = ret results"
| "dispatch cl kind (name # rest) n results =
     bind (lift (ToString name)) (\<lambda>text.
     seq (emit (Info (rocket @ '' '' @ kind @ '' '' @ arrow @ '' '' @ text)))
       (bind (executeOne (cl n) kind name)
          (\<lambda>result. dispatch cl kind rest (Suc n) (push_result results result))))"

section \<open>The run\<close>

definition sentinel :: string where
  "sentinel = ''Nothing to update here''"

definition config_error :: string where
  "config_error = ''Komodo URL / API key / API secret must be provided either via input or env''"

text \<open>\<^verbatim>\<open>!Array.isArray(patterns) || patterns.length === 0\<close>\<close>

definition nothing_to_update :: "jsval \<Rightarrow> bool" where
  "nothing_to_update patterns = (case patterns of JArr xs \<Rightarrow> xs = [] | _ \<Rightarrow> True)"

text \<open>
  \<^verbatim>\<open>patterns.join(', ')\<close>: only an array has a \<^verbatim>\<open>join\<close> method; on any other
  parsed value the call throws a \<^verbatim>\<open>TypeError\<close> (the message is the engine's), and
  on an array it throws when an element cannot be converted to a string.
\<close>

definition patterns_join :: "jsval \<Rightarrow> string action" where
  "patterns_join patterns =
     (case patterns of
        JArr xs \<Rightarrow> lift (join_js xs '', '')
      | JNull \<Rightarrow> throw (Error (''Cannot read properties of null (reading '' @ [CHR 0x27] @ ''join'' @ [CHR 0x27] @ '')''))
      | JUndefined \<Rightarrow> throw (Error (''Cannot read properties of undefined (reading '' @ [CHR 0x27] @ ''join'' @ [CHR 0x27] @ '')''))
      | _ \<Rightarrow> throw (Error ''patterns.join is not a function''))"

definition elements :: "jsval \<Rightarrow> jsval list" where
  "elements patterns = (case patterns of JArr xs \<Rightarrow> xs | _ \<Rightarrow> [])"

text \<open>
  \<^verbatim>\<open>core.getInput(name) || process.env.NAME\<close> and the test \<^verbatim>\<open>!value\<close>:
  an empty input gives way to the environment variable, which may be unset; a value is
  missing when it is unset or empty. Past the test all three values are present.
\<close>

definition or_env :: "string \<Rightarrow> string option \<Rightarrow> string option" where
  "or_env input fallback = (if input \<noteq> [] then Some input else fallback)"

definition missing :: "string option \<Rightarrow> bool" where
  "missing v = (case v of None \<Rightarrow> True | Some s \<Rightarrow> s = [])"

text \<open>The body of the \<^verbatim>\<open>try\<close> block of \<^verbatim>\<open>run\<close>.\<close>

definition run_try :: "env \<Rightarrow> unit action" where
  "run_try e =
     bind (lift (getInput e ''kind'' True)) (\<lambda>kind.
     bind (lift (getInput e ''patterns'' True)) (\<lambda>rawPatterns.
     bind (lift (getInput e ''dry-run'' False)) (\<lambda>dryRunInput.
     bind (lift (JSON_parse e rawPatterns)) (\<lambda>patterns.
     seq (if nothing_to_update patterns
          then emit (SetOutput ''updates'' (JStr sentinel)) else ret ())
    (seq (emit (Info (''Kind: '' @ kind)))
    (bind (patterns_join patterns) (\<lambda>joined.
     seq (emit (Info (''Targets: '' @ joined)))
     (if dryRunInput = ''true'' then
        seq (emit (Info (test_tube @ '' Dry-run enabled, nothing will be deployed'')))
          (emit (SetOutput ''updates'' (JObj [])))
      else
        bind (lift (getInput e ''komodo-url'' False)) (\<lambda>urlInput.
        bind (lift (getInput e ''api-key'' False)) (\<lambda>keyInput.
        bind (lift (getInput e ''api-secret'' False)) (\<lambda>secretInput.
          let komodoUrl = or_env urlInput (process_env e ''KOMODO_URL'');
              apiKey = or_env keyInput (process_env e ''KOMODO_API_KEY'');
              apiSecret = or_env secretInput (process_env e ''KOMODO_API_SECRET'')
          in if missing komodoUrl \<or> missing apiKey \<or> missing apiSecret
             then emit (SetFailed config_error)
             else
               bind (dispatch (KomodoClient e (the komodoUrl) (the apiKey) (the apiSecret))
                       kind (elements patterns) 0 [])
                 (\<lambda>results.
                    seq (emit (SetOutput ''updates'' (JObj (updateStatusMap results))))
                      (writeStepSummary e (updateStatusMap results))))))))))))))"

text \<open>\<^verbatim>\<open>catch (err) { if (err instanceof Error) core.setFailed(err.message) }\<close>\<close>

definition catch_err :: "thrown \<Rightarrow> event list" where
  "catch_err err = (case err of Error message \<Rightarrow> [SetFailed message] | NonError _ \<Rightarrow> [])"

text \<open>\<^verbatim>\<open>run()\<close>: every effect of one run of the action, in order.\<close>

definition run :: "env \<Rightarrow> event list" where
  "run e =
     (case run_try e of
        (evs, Inl err) \<Rightarrow> evs @ catch_err err
      | (evs, Inr _) \<Rightarrow> evs)"

section \<open>Observations on a run\<close>

text \<open>The remote calls of a trace, in order: operation and payload.\<close>

fun calls :: "event list \<Rightarrow> (string \<times> jsval) list" where
  "calls [] = []"
| "calls (Execute op payload # evs) = (op, payload) # calls evs"
| "calls (_ # evs) = calls evs"

text \<open>The values given to the output \<^verbatim>\<open>updates\<close>, in order.\<close>

fun outputs :: "event list \<Rightarrow> jsval list" where
  "outputs [] = []"
| "outputs (SetOutput name v # evs) = (if name = ''updates'' then v # outputs evs else outputs evs)"
| "outputs (_ # evs) = outputs evs"

text \<open>The messages given to \<^verbatim>\<open>core.setFailed\<close>, in order.\<close>

fun failures :: "event list \<Rightarrow> string list" where
  "failures [] = []"
| "failures (SetFailed message # evs) = message # failures evs"
| "failures (_ # evs) = failures evs"

text \<open>The summary writes, in order: path and text.\<close>

fun writes :: "event list \<Rightarrow> (string \<times> string) list" where
  "writes [] = []"
| "writes (WriteFile path text # evs) = (path, text) # writes evs"
| "writes (_ # evs) = writes evs"

text \<open>The call that \<^verbatim>\<open>executeOne\<close> makes for a target of a supported kind.\<close>

definition call_for :: "string \<Rightarrow> jsval \<Rightarrow> string \<times> jsval" where
  "call_for kind name =
     (if kind = ''stack'' then (''DeployStack'', JObj [(''stack'', name)])
      else (''RunProcedure'', JObj [(''procedure'', name)]))"

definition supported :: "string \<Rightarrow> bool" where
  "supported kind = (kind = ''stack'' \<or> kind = ''procedure'')"

text \<open>A value that converts to a string without throwing.\<close>

definition printable :: "jsval \<Rightarrow> bool" where
  "printable v = (case ToString v of Inl _ \<Rightarrow> False | Inr _ \<Rightarrow> True)"

text \<open>The items of one result, as the loop pushes them.\<close>

definition items_of :: "UpdateResult \<Rightarrow> obj list" where
  "items_of result = (case result of Many items \<Rightarrow> items | Single item \<Rightarrow> [item])"

text \<open>
  What the call for a target settles to when it is the \<open>n\<close>-th call through the client,
  and these answers for a list of targets called one after the other from the \<open>n\<close>-th on.
\<close>

definition answer :: "client \<Rightarrow> string \<Rightarrow> nat \<Rightarrow> jsval \<Rightarrow> thrown + UpdateResult" where
  "answer cl kind n name = cl n (fst (call_for kind name)) (snd (call_for kind name))"

fun answers :: "client \<Rightarrow> string \<Rightarrow> nat \<Rightarrow> jsval list \<Rightarrow> (thrown + UpdateResult) list" where
  "answers cl kind n [] = []"
| "answers cl kind n (name # rest) = answer cl kind n name # answers cl kind (Suc n) rest"

text \<open>The inputs as the run reads them, up to the dry-run flag; and the connection inputs.\<close>

definition inputs_read :: "env \<Rightarrow> string \<Rightarrow> string \<Rightarrow> string \<Rightarrow> bool" where
  "inputs_read e kind rawPatterns dryRunInput =
     (getInput e ''kind'' True = Inr kind
      \<and> getInput e ''patterns'' True = Inr rawPatterns
      \<and> getInput e ''dry-run'' False = Inr dryRunInput)"

definition connection_read :: "env \<Rightarrow> string \<Rightarrow> string \<Rightarrow> string \<Rightarrow> bool" where
  "connection_read e urlInput keyInput secretInput =
     (getInput e ''komodo-url'' False = Inr urlInput
      \<and> getInput e ''api-key'' False = Inr keyInput
      \<and> getInput e ''api-secret'' False = Inr secretInput)"

text \<open>
  The connection parameters that the run resolves from the three inputs read and the
  environment: all three when none is missing, nothing otherwise.
\<close>

definition connection :: "env \<Rightarrow> string \<Rightarrow> string \<Rightarrow> string \<Rightarrow> (string \<times> string \<times> string) option" where
  "connection e urlInput keyInput secretInput =
     (let komodoUrl = or_env urlInput (process_env e ''KOMODO_URL'');
          apiKey = or_env keyInput (process_env e ''KOMODO_API_KEY'');
          apiSecret = or_env secretInput (process_env e ''KOMODO_API_SECRET'')
      in if missing komodoUrl \<or> missing apiKey \<or> missing apiSecret then None
         else Some (the komodoUrl, the apiKey, the apiSecret))"

text \<open>The log lines and the sentinel output that precede the dry-run test.\<close>

definition preamble :: "string \<Rightarrow> jsval list \<Rightarrow> string \<Rightarrow> event list" where
  "preamble kind names joined =
     (if names = [] then [SetOutput ''updates'' (JStr sentinel)] else [])
     @ [Info (''Kind: '' @ kind), Info (''Targets: '' @ joined)]"

text \<open>An action that has reported no failure if it throws.\<close>

definition thrown_quiet :: "'a action \<Rightarrow> bool" where
  "thrown_quiet m = (case snd m of Inl err \<Rightarrow> failures (fst m) = [] | Inr _ \<Rightarrow> True)"

section \<open>Example values\<close>

text \<open>A success record as the tests build it, and an error-shaped record.\<close>

definition update_item :: "string \<Rightarrow> string \<Rightarrow> obj" where
  "update_item ident status =
     [(''_id'', JObj [(''$oid'', JStr ident)]), (''operation'', JStr ''DeployStack''),
      (''status'', JStr status)]"

definition err_item :: obj where
  "err_item = [(''status'', JStr ''Err''), (''data'', JObj [(''error'', JStr ''failed'')])]"

section \<open>Example environments\<close>

text \<open>
  \<^verbatim>\<open>core.getInput\<close> of the Actions toolkit over given input texts: an input that is
  not supplied reads as the empty string, and a required one that is empty throws.
\<close>

definition input_of :: "(string \<times> string) list \<Rightarrow> string \<Rightarrow> string" where
  "input_of given name = (case map_of given name of None \<Rightarrow> [] | Some v \<Rightarrow> v)"

definition core_getInput :: "(string \<times> string) list \<Rightarrow> string \<Rightarrow> bool \<Rightarrow> thrown + string" where
  "core_getInput given name required =
     (if required \<and> input_of given name = []
      then Inl (Error (''Input required and not supplied: '' @ name))
      else Inr (input_of given name))"

text \<open>
  \<^verbatim>\<open>JSON.parse\<close> on the texts used in the examples: the empty array, an array of
  two names, one name as a JSON string, an array holding an object with a property
  \<^verbatim>\<open>toString\<close>, and the text \<^verbatim>\<open>[\<close>, which breaks off after the opening bracket
  (no other text is used, and all others are answered like it).
\<close>

definition json_app :: string where
  "json_app = [CHR 0x22] @ ''app'' @ [CHR 0x22]"

definition json_a_b :: string where
  "json_a_b = ''['' @ [CHR 0x22] @ ''a'' @ [CHR 0x22] @ '','' @ [CHR 0x22] @ ''b'' @ [CHR 0x22] @ '']''"

definition json_object :: string where
  "json_object = ''[{'' @ [CHR 0x22] @ ''toString'' @ [CHR 0x22] @ '':1}]''"

definition example_parse :: "string \<Rightarrow> thrown + jsval" where
  "example_parse text =
     (if text = ''[]'' then Inr (JArr [])
      else if text = json_a_b then Inr (JArr [JStr ''a'', JStr ''b''])
      else if text = json_app then Inr (JStr ''app'')
      else if text = json_object then Inr (JArr [JObj [(''toString'', JNum ''1'')]])
      else Inl (Error ''Unexpected end of JSON input''))"

definition example_env ::
  "(string \<times> string) list \<Rightarrow> (string \<times> string) list \<Rightarrow> client
    \<Rightarrow> (string \<Rightarrow> string \<Rightarrow> thrown option) \<Rightarrow> env" where
  "example_env given vars cl write =
     \<lparr> getInput = core_getInput given,
       JSON_parse = example_parse,
       process_env = map_of vars,
       KomodoClient = (\<lambda>url key secret. cl),
       writeFile = write \<rparr>"

definition credentials :: "(string \<times> string) list" where
  "credentials =
     [(''komodo-url'', ''https://komodo.example.com''), (''api-key'', ''fake-key''),
      (''api-secret'', ''fake-secret'')]"

text \<open>A remote that resolves every call to a list of one completed update.\<close>

definition remote_ok :: client where
  "remote_ok n op payload = Inr (Many [update_item ''id1'' ''Complete''])"

definition write_ok :: "string \<Rightarrow> string \<Rightarrow> thrown option" where
  "write_ok path text = None"

definition write_denied :: "string \<Rightarrow> string \<Rightarrow> thrown option" where
  "write_denied path text = Some (Error ''EACCES: permission denied'')"

definition summary_sink :: "(string \<times> string) list" where
  "summary_sink = [(''GITHUB_STEP_SUMMARY'', ''/tmp/summary.md'')]"

text \<open>An empty target list with everything else in order.\<close>

definition empty_targets_env :: env where
  "empty_targets_env =
     example_env
       ([(''kind'', ''stack''), (''patterns'', ''[]''), (''dry-run'', ''false'')] @ credentials)
       summary_sink remote_ok write_ok"

text \<open>The same run when the summary file cannot be written.\<close>

definition empty_targets_denied_env :: env where
  "empty_targets_denied_env =
     example_env
       ([(''kind'', ''stack''), (''patterns'', ''[]''), (''dry-run'', ''false'')] @ credentials)
       summary_sink remote_ok write_denied"

text \<open>An empty target list when the required input \<^verbatim>\<open>kind\<close> is not supplied.\<close>

definition empty_targets_no_kind_env :: env where
  "empty_targets_no_kind_env =
     example_env ([(''patterns'', ''[]''), (''dry-run'', ''false'')] @ credentials)
       summary_sink remote_ok write_ok"

text \<open>Dry runs over a given \<^verbatim>\<open>patterns\<close> text, with and without any connection parameter.\<close>

definition dry_run_env :: "string \<Rightarrow> env" where
  "dry_run_env rawPatterns =
     example_env
       ([(''kind'', ''stack''), (''patterns'', rawPatterns), (''dry-run'', ''true'')] @ credentials)
       summary_sink remote_ok write_ok"

definition dry_run_bare_env :: "string \<Rightarrow> env" where
  "dry_run_bare_env rawPatterns =
     example_env [(''kind'', ''stack''), (''patterns'', rawPatterns), (''dry-run'', ''true'')]
       [] remote_ok write_ok"

text \<open>A run with the API key neither given as input nor set in the environment.\<close>

definition no_api_key_env :: "string \<Rightarrow> env" where
  "no_api_key_env rawPatterns =
     example_env
       [(''kind'', ''stack''), (''patterns'', rawPatterns), (''dry-run'', ''false''),
        (''komodo-url'', ''https://komodo.example.com''), (''api-secret'', ''fake-secret'')]
       summary_sink remote_ok write_ok"

text \<open>
  Runs over the two targets \<^verbatim>\<open>a\<close> and \<^verbatim>\<open>b\<close> against a given remote: one whose
  \<open>i\<close>-th call rejects with a given value, and one that answers the first call with a
  list (a queued update, an error-shaped record, an update in progress) and the second
  with a single record for an identifier seen before.
\<close>

definition two_targets_env :: "client \<Rightarrow> env" where
  "two_targets_env cl =
     example_env
       ([(''kind'', ''stack''), (''patterns'', json_a_b), (''dry-run'', ''false'')] @ credentials)
       summary_sink cl write_ok"

definition remote_rejects_at :: "nat \<Rightarrow> thrown \<Rightarrow> client" where
  "remote_rejects_at i err n op payload =
     (if n = i then Inl err else Inr (Many [update_item ''id1'' ''Complete'']))"

definition remote_mixed :: client where
  "remote_mixed n op payload =
     (if n = 0
      then Inr (Many [update_item ''id2'' ''Queued'', err_item, update_item ''id1'' ''InProgress''])
      else Inr (Single (update_item ''id1'' ''Complete'')))"

text \<open>A rejection value that is not an instance of \<^verbatim>\<open>Error\<close>: a plain object describing a server error.\<close>

definition server_error :: jsval where
  "server_error = JObj [(''status'', JNum ''500''), (''result'', JObj [(''error'', JStr ''boom'')])]"

text \<open>The same runs when the required input \<^verbatim>\<open>kind\<close> is not supplied.\<close>

definition dry_run_no_kind_env :: env where
  "dry_run_no_kind_env =
     example_env ([(''patterns'', json_a_b), (''dry-run'', ''true'')] @ credentials)
       summary_sink remote_ok write_ok"

definition dry_run_bare_no_kind_env :: env where
  "dry_run_bare_no_kind_env =
     example_env [(''patterns'', json_a_b), (''dry-run'', ''true'')] [] remote_ok write_ok"

definition no_api_key_no_kind_env :: env where
  "no_api_key_no_kind_env =
     example_env
       [(''patterns'', json_a_b), (''dry-run'', ''false''),
        (''komodo-url'', ''https://komodo.example.com''), (''api-secret'', ''fake-secret'')]
       summary_sink remote_ok write_ok"

section \<open>Basic facts\<close>

lemma calls_append: "calls (xs @ ys) = calls xs @ calls ys"
  by (induction xs rule: calls.induct) simp_all

lemma outputs_append: "outputs (xs @ ys) = outputs xs @ outputs ys"
  by (induction xs rule: outputs.induct) simp_all

lemma failures_append: "failures (xs @ ys) = failures xs @ failures ys"
  by (induction xs rule: failures.induct) simp_all

lemma writes_append: "writes (xs @ ys) = writes xs @ writes ys"
  by (induction xs rule: writes.induct) simp_all

lemma bind_lift_Inr: "bind (lift (Inr x)) f = f x"
  by (simp add: bind_def lift_def split: prod.splits)

lemma bind_lift_Inl: "bind (lift (Inl t)) f = ([], Inl t)"
  by (simp add: bind_def lift_def)

lemma bind_ret: "bind (ret x) f = f x"
  by (simp add: bind_def ret_def split: prod.splits)

lemma bind_throw: "bind (throw t) f = ([], Inl t)"
  by (simp add: bind_def throw_def)

lemma seq_emit: "seq (emit ev) k = (ev # fst k, snd k)"
  by (simp add: seq_def bind_def emit_def split: prod.splits)

lemma seq_ret: "seq (ret ()) k = k"
  by (simp add: seq_def bind_ret)

lemma bind_Inl: "bind (evs, Inl t) f = (evs, Inl t)"
  by (simp add: bind_def)

lemma bind_Inr: "bind (evs, Inr x) f = (evs @ fst (f x), snd (f x))"
  by (simp add: bind_def split: prod.splits)

lemma bind_fst_snd:
  "bind m f =
     (case snd m of
        Inl t \<Rightarrow> (fst m, Inl t)
      | Inr x \<Rightarrow> (fst m @ fst (f x), snd (f x)))"
  by (cases m) (simp add: bind_def split: sum.splits prod.splits)

lemmas action_simps =
  bind_lift_Inr bind_lift_Inl bind_ret bind_throw seq_emit seq_ret bind_Inl bind_Inr

lemma push_result_items: "push_result results result = results @ items_of result"
  by (simp add: push_result_def items_of_def split: UpdateResult.splits)

lemma fst_snd_actions:
  "fst (emit ev) = [ev]" "snd (emit ev) = Inr ()"
  "fst (ret x) = []" "snd (ret x) = Inr x"
  "fst (throw t) = []" "snd (throw t) = Inl t"
  "fst (lift r) = []" "snd (lift r) = r"
  by (simp_all add: emit_def ret_def throw_def lift_def)


section \<open>The dispatcher's one call\<close>

text \<open>
  C7. \<^verbatim>\<open>executeOne\<close> with kind \<^verbatim>\<open>stack\<close> makes exactly one call, of the operation
  \<^verbatim>\<open>DeployStack\<close> with payload \<^verbatim>\<open>{stack: name}\<close>, and returns what that call
  settles to; with kind \<^verbatim>\<open>procedure\<close> exactly one call of \<^verbatim>\<open>RunProcedure\<close> with
  payload \<^verbatim>\<open>{procedure: name}\<close>; with any other kind it makes no call and throws an
  \<^verbatim>\<open>Error\<close> whose message is \<^verbatim>\<open>Unsupported kind: \<close> followed by the kind.
\<close>

theorem executeOne_by_kind:
  "executeOne cl ''stack'' name =
     ([Execute ''DeployStack'' (JObj [(''stack'', name)])],
      cl ''DeployStack'' (JObj [(''stack'', name)]))
   \<and> executeOne cl ''procedure'' name =
     ([Execute ''RunProcedure'' (JObj [(''procedure'', name)])],
      cl ''RunProcedure'' (JObj [(''procedure'', name)]))
   \<and> (kind \<noteq> ''stack'' \<and> kind \<noteq> ''procedure'' \<longrightarrow>
        executeOne cl kind name = ([], Inl (Error (''Unsupported kind: '' @ kind))))"
  by (simp add: executeOne_def seq_emit lift_def throw_def)

theorem executeOne_by_kind_witness:
  "''service'' \<noteq> ''stack'' \<and> ''service'' \<noteq> ''procedure''
   \<and> executeOne (\<lambda>op payload. Inr (Many [])) ''service'' (JStr ''foo'')
       = ([], Inl (Error ''Unsupported kind: service''))
   \<and> executeOne (\<lambda>op payload. Inr (Many [])) ''stack'' (JStr ''foo'')
       = ([Execute ''DeployStack'' (JObj [(''stack'', JStr ''foo'')])], Inr (Many []))"
  using executeOne_by_kind [of "\<lambda>op payload. Inr (Many [])" "JStr ''foo''" "''service''"]
  by simp

section \<open>The status mapping\<close>

lemma map_of_assign:
  "k \<noteq> ''__proto__'' \<Longrightarrow>
   map_of (fst (assign acc key v)) k = (if key = k then Some v else map_of (fst acc) k)"
  by (cases acc) (auto simp: assign_def update_conv')

lemma keys_assign:
  "k \<in> fst ` set (fst (assign acc key v)) \<Longrightarrow> k = key \<or> k \<in> fst ` set (fst acc)"
  by (cases acc) (auto simp: assign_def dom_update split: if_splits)

lemma distinct_assign:
  "distinct (map fst (fst acc)) \<Longrightarrow> distinct (map fst (fst (assign acc key v)))"
  by (cases acc) (auto simp: assign_def distinct_update)

lemma hasOid_oid: "hasOid item \<Longrightarrow> \<exists>s. oid item = JStr s"
  by (auto simp: hasOid_def is_string_def split: jsval.splits)

lemma map_of_foldl_assign:
  assumes "k \<noteq> ''__proto__''"
  shows "map_of (fst (foldl (\<lambda>acc u. case oid u of JStr key \<Rightarrow> assign acc key (val u) | _ \<Rightarrow> acc)
                   acc0 us)) k =
     (case filter (\<lambda>u. oid u = JStr k) us of
        [] \<Rightarrow> map_of (fst acc0) k
      | x # xs \<Rightarrow> Some (val (last (x # xs))))"
proof (induction us rule: rev_induct)
  case Nil
  then show ?case by simp
next
  case (snoc u us)
  then show ?case
    by (cases "filter (\<lambda>u. oid u = JStr k) us")
       (auto simp: map_of_assign [OF assms] split: jsval.splits)
qed

lemma keys_foldl_assign:
  "k \<in> fst ` set (fst (foldl (\<lambda>acc u. case oid u of JStr key \<Rightarrow> assign acc key (val u) | _ \<Rightarrow> acc)
                   acc0 us))
     \<Longrightarrow> k \<in> fst ` set (fst acc0) \<or> (\<exists>u \<in> set us. oid u = JStr k)"
proof (induction us rule: rev_induct)
  case Nil
  then show ?case by simp
next
  case (snoc u us)
  show ?case
  proof (cases "oid u")
    case (JStr key)
    with snoc.prems have "k \<in> fst ` set (fst (assign (foldl
        (\<lambda>acc u. case oid u of JStr key \<Rightarrow> assign acc key (val u) | _ \<Rightarrow> acc) acc0 us)
        key (val u)))"
      by simp
    from keys_assign [OF this] snoc.IH JStr show ?thesis by auto
  qed (use snoc in auto)
qed

lemma distinct_foldl_assign:
  "distinct (map fst (fst acc0)) \<Longrightarrow>
   distinct (map fst (fst (foldl (\<lambda>acc u. case oid u of JStr key \<Rightarrow> assign acc key (val u) | _ \<Rightarrow> acc)
                   acc0 us)))"
  by (induction us rule: rev_induct) (auto simp: distinct_assign split: jsval.splits)

lemma filter_hasOid_key:
  "filter (\<lambda>u. oid u = JStr k) (filter hasOid results) =
   filter (\<lambda>item. hasOid item \<and> oid item = JStr k) results"
  by (induction results) auto

lemma map_of_updateStatusMap:
  "k \<noteq> ''__proto__'' \<Longrightarrow>
   map_of (updateStatusMap results) k =
     (case filter (\<lambda>item. hasOid item \<and> oid item = JStr k) results of
        [] \<Rightarrow> None
      | x # xs \<Rightarrow> Some (get_field (last (x # xs)) ''status''))"
  unfolding updateStatusMap_def
  by (simp add: map_of_foldl_assign filter_hasOid_key del: filter_filter split: list.splits)

lemma keys_updateStatusMap:
  "k \<in> fst ` set (updateStatusMap results) \<Longrightarrow>
   \<exists>item \<in> set results. hasOid item \<and> oid item = JStr k"
  using keys_foldl_assign
    [of k "\<lambda>u. get_field u ''status''" "([], True)" "filter hasOid results"]
  unfolding updateStatusMap_def by auto

lemma distinct_keys_updateStatusMap: "distinct (map fst (updateStatusMap results))"
  unfolding updateStatusMap_def by (rule distinct_foldl_assign) simp

lemma updateStatusMap_drop:
  "\<not> hasOid item \<Longrightarrow> updateStatusMap (xs @ item # ys) = updateStatusMap (xs @ ys)"
  by (simp add: updateStatusMap_def)

text \<open>
  C2. A string is a key of the status mapping only if some result has an
  \<^verbatim>\<open>operation\<close> property and that string as its \<^verbatim>\<open>_id.$oid\<close> (and, for every
  string other than \<^verbatim>\<open>__proto__\<close>, also if); and a result that lacks the
  \<^verbatim>\<open>operation\<close> property, or whose \<^verbatim>\<open>_id.$oid\<close> is not a string, is dropped: the
  mapping is the same as without it, wherever it stands in the sequence.
\<close>

theorem status_keys_only_valid:
  "(k \<in> fst ` set (updateStatusMap results) \<longrightarrow>
      (\<exists>item \<in> set results. ''operation'' \<in> fst ` set item \<and> oid item = JStr k))
   \<and> (k \<noteq> ''__proto__''
        \<and> (\<exists>item \<in> set results. ''operation'' \<in> fst ` set item \<and> oid item = JStr k)
      \<longrightarrow> k \<in> fst ` set (updateStatusMap results))
   \<and> (\<not> (''operation'' \<in> fst ` set item \<and> is_string (oid item)) \<longrightarrow>
        updateStatusMap (xs @ item # ys) = updateStatusMap (xs @ ys))"
proof -
  have valid: "hasOid i = (''operation'' \<in> fst ` set i \<and> is_string (oid i))" for i
    by (simp add: hasOid_def map_of_eq_None_iff)
  have only_if: "\<exists>item \<in> set results. ''operation'' \<in> fst ` set item \<and> oid item = JStr k"
    if "k \<in> fst ` set (updateStatusMap results)"
    using keys_updateStatusMap [OF that] by (auto simp: valid)
  have "k \<in> fst ` set (updateStatusMap results)"
    if k: "k \<noteq> ''__proto__''"
      and ex: "\<exists>item \<in> set results. ''operation'' \<in> fst ` set item \<and> oid item = JStr k"
  proof -
    from ex have "\<exists>item \<in> set results. hasOid item \<and> oid item = JStr k"
      by (auto simp: valid is_string_def)
    then have "filter (\<lambda>item. hasOid item \<and> oid item = JStr k) results \<noteq> []"
      by (simp add: filter_empty_conv)
    then have "map_of (updateStatusMap results) k \<noteq> None"
      by (simp add: map_of_updateStatusMap [OF k] split: list.splits)
    then show ?thesis by (simp add: map_of_eq_None_iff)
  qed
  moreover have "\<not> hasOid item \<longrightarrow> updateStatusMap (xs @ item # ys) = updateStatusMap (xs @ ys)"
    by (simp add: updateStatusMap_drop)
  ultimately show ?thesis using only_if by (simp add: valid)
qed

lemmas status_eval =
  err_item_def update_item_def oid_def get_field_def is_string_def updateStatusMap_def
  hasOid_def assign_def

theorem status_keys_only_valid_witness:
  "''id1'' \<in> fst ` set (updateStatusMap [err_item, update_item ''id1'' ''Complete''])
   \<and> (\<exists>item \<in> set [err_item, update_item ''id1'' ''Complete''].
         ''operation'' \<in> fst ` set item \<and> oid item = JStr ''id1'')
   \<and> \<not> (''operation'' \<in> fst ` set err_item \<and> is_string (oid err_item))
   \<and> updateStatusMap ([] @ err_item # [update_item ''id1'' ''Complete''])
       = updateStatusMap ([] @ [update_item ''id1'' ''Complete''])
   \<and> updateStatusMap [err_item, update_item ''id1'' ''Complete''] = [(''id1'', JStr ''Complete'')]"
  using status_keys_only_valid [of "''id1''" "[err_item, update_item ''id1'' ''Complete'']"
      err_item "[]" "[update_item ''id1'' ''Complete'']"]
  by (simp add: status_eval)

section \<open>The dispatch loop\<close>

lemma join_js_printable:
  "join_js names sep = Inr joined \<Longrightarrow> list_all printable names"
proof (induction names arbitrary: joined)
  case Nil
  then show ?case by simp
next
  case (Cons x xs)
  from Cons.prems have x: "printable x"
    by (auto simp: printable_def split: sum.splits if_splits)
  show ?case
  proof (cases "xs = []")
    case True
    with x show ?thesis by simp
  next
    case False
    with Cons.prems obtain others where "join_js xs sep = Inr others"
      by (auto split: sum.splits if_splits)
    with Cons.IH x show ?thesis by simp
  qed
qed

lemma join_js_strings: "join_js (map JStr targets) sep \<noteq> Inl err"
  by (induction targets) (auto split: sum.splits)

lemma executeOne_supported:
  "supported kind \<Longrightarrow>
   executeOne (cl n) kind name =
     ([Execute (fst (call_for kind name)) (snd (call_for kind name))], answer cl kind n name)"
  by (auto simp: supported_def executeOne_def call_for_def answer_def seq_emit lift_def)

lemma executeOne_unsupported:
  "\<not> supported kind \<Longrightarrow>
   executeOne c kind name = ([], Inl (Error (''Unsupported kind: '' @ kind)))"
  by (simp add: supported_def executeOne_def throw_def)

lemma dispatch_Cons_unprintable:
  "ToString name = Inl err \<Longrightarrow> dispatch cl kind (name # rest) n results = ([], Inl err)"
  by (simp add: bind_lift_Inl)

lemma dispatch_Cons_supported:
  "supported kind \<Longrightarrow> ToString name = Inr text \<Longrightarrow>
   dispatch cl kind (name # rest) n results =
     (case answer cl kind n name of
        Inl t \<Rightarrow>
          ([Info (rocket @ '' '' @ kind @ '' '' @ arrow @ '' '' @ text),
            Execute (fst (call_for kind name)) (snd (call_for kind name))], Inl t)
      | Inr result \<Rightarrow>
          (Info (rocket @ '' '' @ kind @ '' '' @ arrow @ '' '' @ text)
           # Execute (fst (call_for kind name)) (snd (call_for kind name))
           # fst (dispatch cl kind rest (Suc n) (results @ items_of result)),
           snd (dispatch cl kind rest (Suc n) (results @ items_of result))))"
  by (simp add: executeOne_supported bind_lift_Inr seq_emit bind_Inl bind_Inr push_result_items
      split: sum.splits)

lemma dispatch_Cons_unsupported:
  "\<not> supported kind \<Longrightarrow> ToString name = Inr text \<Longrightarrow>
   dispatch cl kind (name # rest) n results =
     ([Info (rocket @ '' '' @ kind @ '' '' @ arrow @ '' '' @ text)],
      Inl (Error (''Unsupported kind: '' @ kind)))"
  by (simp add: executeOne_unsupported bind_lift_Inr seq_emit bind_Inl)

declare dispatch.simps(2) [simp del]

lemma dispatch_quiet:
  "outputs (fst (dispatch cl kind names n results)) = []
   \<and> failures (fst (dispatch cl kind names n results)) = []
   \<and> writes (fst (dispatch cl kind names n results)) = []"
proof (induction names arbitrary: n results)
  case Nil
  then show ?case by (simp add: ret_def)
next
  case (Cons name rest)
  show ?case
  proof (cases "ToString name")
    case (Inl err)
    then show ?thesis by (simp add: dispatch_Cons_unprintable)
  next
    case (Inr str)
    show ?thesis
    proof (cases "supported kind")
      case True
      with Cons Inr show ?thesis
        by (simp add: dispatch_Cons_supported split: sum.splits)
    next
      case False
      with Inr show ?thesis by (simp add: dispatch_Cons_unsupported)
    qed
  qed
qed

lemma dispatch_resolved:
  "supported kind \<Longrightarrow> list_all printable names \<Longrightarrow> answers cl kind n names = map Inr rs \<Longrightarrow>
   snd (dispatch cl kind names n results) = Inr (results @ concat (map items_of rs))
   \<and> calls (fst (dispatch cl kind names n results)) = map (call_for kind) names"
proof (induction names arbitrary: n results rs)
  case Nil
  then show ?case by (simp add: ret_def)
next
  case (Cons name rest)
  from Cons.prems(2) have pn: "printable name" and p: "list_all printable rest"
    by simp_all
  from pn obtain str where t: "ToString name = Inr str"
    by (auto simp: printable_def split: sum.splits)
  from Cons.prems(3) obtain r rs' where rs: "rs = r # rs'"
    and a: "answer cl kind n name = Inr r"
    and as: "answers cl kind (Suc n) rest = map Inr rs'"
    by (cases rs) auto
  from Cons.IH [OF Cons.prems(1) p as, of "results @ items_of r"] Cons.prems(1) a rs t
  show ?case by (simp add: dispatch_Cons_supported)
qed

lemma dispatch_rejected:
  "supported kind \<Longrightarrow> list_all printable names \<Longrightarrow>
   answers cl kind n names = map Inr rs @ Inl t # later \<Longrightarrow>
   snd (dispatch cl kind names n results) = Inl t
   \<and> calls (fst (dispatch cl kind names n results))
       = map (call_for kind) (take (Suc (length rs)) names)"
proof (induction rs arbitrary: names n results)
  case Nil
  then obtain name rest where n: "names = name # rest" and "answer cl kind n name = Inl t"
    by (cases names) auto
  moreover from Nil.prems(2) n have "printable name" by simp
  then obtain str where "ToString name = Inr str"
    by (auto simp: printable_def split: sum.splits)
  ultimately show ?case using Nil.prems(1) by (simp add: dispatch_Cons_supported)
next
  case (Cons r rs')
  from Cons.prems(3) obtain name rest where names: "names = name # rest"
    and a: "answer cl kind n name = Inr r"
    and as: "answers cl kind (Suc n) rest = map Inr rs' @ Inl t # later"
    by (cases names) auto
  from Cons.prems(2) names have pn: "printable name" and p: "list_all printable rest"
    by simp_all
  from pn obtain str where t: "ToString name = Inr str"
    by (auto simp: printable_def split: sum.splits)
  from Cons.IH [OF Cons.prems(1) p as, of "results @ items_of r"] Cons.prems(1) a names t
  show ?case by (simp add: dispatch_Cons_supported)
qed

lemma dispatch_calls_prefix:
  "prefix (calls (fst (dispatch cl kind names n results))) (map (call_for kind) names)"
proof (induction names arbitrary: n results)
  case Nil
  then show ?case by (simp add: ret_def)
next
  case (Cons name rest)
  show ?case
  proof (cases "ToString name")
    case (Inl err)
    then show ?thesis by (simp add: dispatch_Cons_unprintable)
  next
    case (Inr str)
    show ?thesis
    proof (cases "supported kind")
      case True
      with Cons Inr show ?thesis
        by (simp add: dispatch_Cons_supported split: sum.splits)
    next
      case False
      with Inr show ?thesis by (simp add: dispatch_Cons_unsupported)
    qed
  qed
qed

section \<open>The shape of a run\<close>

lemma run_dry:
  assumes "inputs_read e kind raw ''true''" and "JSON_parse e raw = Inr (JArr names)"
    and "join_js names '', '' = Inr joined"
  shows "run e = preamble kind names joined
           @ [Info (test_tube @ '' Dry-run enabled, nothing will be deployed''),
              SetOutput ''updates'' (JObj [])]"
  using assms
  by (simp add: run_def run_try_def inputs_read_def action_simps fst_snd_actions
      patterns_join_def nothing_to_update_def preamble_def)

lemma connection_None:
  "connection e u k s = None \<longleftrightarrow>
     missing (or_env u (process_env e ''KOMODO_URL''))
     \<or> missing (or_env k (process_env e ''KOMODO_API_KEY''))
     \<or> missing (or_env s (process_env e ''KOMODO_API_SECRET''))"
  by (simp add: connection_def Let_def)

lemma connection_Some:
  "connection e u k s = Some (url, key, secret) \<Longrightarrow>
     \<not> missing (or_env u (process_env e ''KOMODO_URL''))
     \<and> \<not> missing (or_env k (process_env e ''KOMODO_API_KEY''))
     \<and> \<not> missing (or_env s (process_env e ''KOMODO_API_SECRET''))
     \<and> the (or_env u (process_env e ''KOMODO_URL'')) = url
     \<and> the (or_env k (process_env e ''KOMODO_API_KEY'')) = key
     \<and> the (or_env s (process_env e ''KOMODO_API_SECRET'')) = secret"
  by (simp add: connection_def Let_def split: if_splits)

lemma run_config:
  assumes "inputs_read e kind raw dry" and "dry \<noteq> ''true''"
    and "JSON_parse e raw = Inr (JArr names)" and "join_js names '', '' = Inr joined"
    and "connection_read e u k s" and "connection e u k s = None"
  shows "run e = preamble kind names joined @ [SetFailed config_error]"
proof -
  from assms(6) have m: "missing (or_env u (process_env e ''KOMODO_URL''))
     \<or> missing (or_env k (process_env e ''KOMODO_API_KEY''))
     \<or> missing (or_env s (process_env e ''KOMODO_API_SECRET''))"
    by (simp add: connection_None)
  from assms(1-5) have "run_try e = (preamble kind names joined @ [SetFailed config_error], Inr ())"
    using m
    by (simp add: run_try_def inputs_read_def connection_read_def action_simps fst_snd_actions
        patterns_join_def nothing_to_update_def preamble_def Let_def)
  then show ?thesis by (simp add: run_def)
qed

lemma run_try_dispatch:
  assumes "inputs_read e kind raw dry" and "dry \<noteq> ''true''"
    and "JSON_parse e raw = Inr (JArr names)" and "join_js names '', '' = Inr joined"
    and "connection_read e u k s" and "connection e u k s = Some (url, key, secret)"
  shows "run_try e =
     bind (preamble kind names joined
             @ fst (dispatch (KomodoClient e url key secret) kind names 0 []),
           snd (dispatch (KomodoClient e url key secret) kind names 0 []))
       (\<lambda>results.
          seq (emit (SetOutput ''updates'' (JObj (updateStatusMap results))))
            (writeStepSummary e (updateStatusMap results)))"
proof (cases "names = []")
  case True
  with assms(1-5) connection_Some [OF assms(6)] show ?thesis
    by (simp add: run_try_def inputs_read_def connection_read_def action_simps fst_snd_actions
        patterns_join_def nothing_to_update_def preamble_def elements_def Let_def)
next
  case False
  with assms(1-5) connection_Some [OF assms(6)] show ?thesis
    by (cases "snd (dispatch (KomodoClient e url key secret) kind names 0 [])")
       (simp_all add: run_try_def inputs_read_def connection_read_def action_simps fst_snd_actions
        patterns_join_def nothing_to_update_def preamble_def elements_def Let_def bind_fst_snd
        seq_def)
qed

lemma summary_markdown_empty: "summary_markdown [] = Inr summary_header"
  by (simp add: summary_markdown_def Object_entries_def)

lemma writeStepSummary_quiet:
  "outputs (fst (writeStepSummary e m)) = []
   \<and> failures (fst (writeStepSummary e m)) = []
   \<and> calls (fst (writeStepSummary e m)) = []"
  by (cases "summary_markdown m")
     (simp_all add: writeStepSummary_def action_simps fst_snd_actions split: option.splits)

lemma writeStepSummary_written:
  "summary_markdown m = Inr markdown \<Longrightarrow>
   (\<forall>f. process_env e ''GITHUB_STEP_SUMMARY'' = Some f \<and> f \<noteq> [] \<longrightarrow>
        writeFile e f markdown = None)
   \<Longrightarrow> snd (writeStepSummary e m) = Inr ()"
  by (simp add: writeStepSummary_def action_simps fst_snd_actions split: option.splits)

lemma run_rejected:
  assumes "inputs_read e kind raw dry" and "dry \<noteq> ''true''"
    and "JSON_parse e raw = Inr (JArr names)" and "join_js names '', '' = Inr joined"
    and "connection_read e u k s" and "connection e u k s = Some (url, key, secret)"
    and "snd (dispatch (KomodoClient e url key secret) kind names 0 []) = Inl err"
  shows "run e = preamble kind names joined
           @ fst (dispatch (KomodoClient e url key secret) kind names 0 []) @ catch_err err"
  using assms(7) by (simp add: run_def run_try_dispatch [OF assms(1-6)] bind_Inl)

lemma run_completed:
  assumes "inputs_read e kind raw dry" and "dry \<noteq> ''true''"
    and "JSON_parse e raw = Inr (JArr names)" and "join_js names '', '' = Inr joined"
    and "connection_read e u k s" and "connection e u k s = Some (url, key, secret)"
    and "snd (dispatch (KomodoClient e url key secret) kind names 0 []) = Inr results"
  shows "run e = preamble kind names joined
           @ fst (dispatch (KomodoClient e url key secret) kind names 0 [])
           @ SetOutput ''updates'' (JObj (updateStatusMap results))
           # fst (writeStepSummary e (updateStatusMap results))
           @ (case snd (writeStepSummary e (updateStatusMap results)) of
                Inl err \<Rightarrow> catch_err err | Inr _ \<Rightarrow> [])"
  using assms(7)
  by (simp add: run_def run_try_dispatch [OF assms(1-6)] bind_Inr seq_emit split: sum.splits)

lemma observe_preamble:
  "calls (preamble kind names joined) = []"
  "failures (preamble kind names joined) = []"
  "writes (preamble kind names joined) = []"
  "outputs (preamble kind names joined) = (if names = [] then [JStr sentinel] else [])"
  by (simp_all add: preamble_def)

lemma observe_catch_err:
  "calls (catch_err err) = []" "outputs (catch_err err) = []" "writes (catch_err err) = []"
  by (simp_all add: catch_err_def split: thrown.splits)

lemma patterns_join_cases:
  "patterns_join p = (case p of JArr xs \<Rightarrow> ([], join_js xs '', '')
     | JNull \<Rightarrow> ([], Inl (Error (''Cannot read properties of null (reading '' @ [CHR 0x27] @ ''join'' @ [CHR 0x27] @ '')'')))
     | JUndefined \<Rightarrow> ([], Inl (Error (''Cannot read properties of undefined (reading '' @ [CHR 0x27] @ ''join'' @ [CHR 0x27] @ '')'')))
     | _ \<Rightarrow> ([], Inl (Error ''patterns.join is not a function'')))"
  by (simp add: patterns_join_def lift_def throw_def split: jsval.splits)

lemma calls_run_dispatch:
  assumes "inputs_read e kind raw dry" and "dry \<noteq> ''true''"
    and "JSON_parse e raw = Inr (JArr names)" and "join_js names '', '' = Inr joined"
    and "connection_read e u k s" and "connection e u k s = Some (url, key, secret)"
  shows "calls (run e) = calls (fst (dispatch (KomodoClient e url key secret) kind names 0 []))"
proof (cases "snd (dispatch (KomodoClient e url key secret) kind names 0 [])")
  case (Inl err)
  show ?thesis
    by (simp add: run_rejected [OF assms Inl] calls_append observe_preamble observe_catch_err)
next
  case (Inr results)
  show ?thesis
    by (simp add: run_completed [OF assms Inr] calls_append observe_preamble observe_catch_err
        writeStepSummary_quiet split: sum.splits)
qed

section \<open>Runs that make no call\<close>

lemma calls_bind:
  "calls (fst (bind m f)) = [] \<and> writes (fst (bind m f)) = []"
  if "calls (fst m) = [] \<and> writes (fst m) = []"
    and "\<And>x. calls (fst (f x)) = [] \<and> writes (fst (f x)) = []"
  using that(1) that(2)
  by (cases "snd m") (simp_all add: bind_fst_snd calls_append writes_append)

lemma calls_seq:
  "calls (fst m) = [] \<and> writes (fst m) = [] \<Longrightarrow> calls (fst k) = [] \<and> writes (fst k) = []
   \<Longrightarrow> calls (fst (seq m k)) = [] \<and> writes (fst (seq m k)) = []"
  by (simp add: seq_def calls_bind)

lemma calls_if:
  "calls (fst a) = [] \<and> writes (fst a) = [] \<Longrightarrow> calls (fst b) = [] \<and> writes (fst b) = []
   \<Longrightarrow> calls (fst (if c then a else b)) = [] \<and> writes (fst (if c then a else b)) = []"
  by simp

lemma calls_run: "calls (run e) = calls (fst (run_try e))"
  by (cases "run_try e") (simp add: run_def calls_append observe_catch_err split: sum.splits)

lemma writes_run: "writes (run e) = writes (fst (run_try e))"
  by (cases "run_try e") (simp add: run_def writes_append observe_catch_err split: sum.splits)

lemma patterns_join_silent:
  "calls (fst (patterns_join p)) = [] \<and> writes (fst (patterns_join p)) = []"
  by (simp add: patterns_join_cases split: jsval.splits)

lemma dry_run_no_calls:
  assumes "getInput e ''dry-run'' False = Inr ''true''"
  shows "calls (run e) = [] \<and> writes (run e) = []"
proof -
  have "calls (fst (run_try e)) = [] \<and> writes (fst (run_try e)) = []"
    unfolding run_try_def
    apply (simp only: assms bind_lift_Inr simp_thms if_True)
    apply (intro calls_bind calls_seq calls_if)
    apply (simp_all add: fst_snd_actions patterns_join_silent)
    done
  then show ?thesis by (simp add: calls_run writes_run)
qed

lemma dry_run_independent:
  assumes "getInput e ''dry-run'' False = Inr ''true''"
  shows "run (e\<lparr>getInput := (\<lambda>name required.
                 if name = ''komodo-url'' \<or> name = ''api-key'' \<or> name = ''api-secret''
                 then g name required else getInput e name required),
              process_env := vars\<rparr>) = run e"
  using assms by (simp add: run_def run_try_def bind_lift_Inr)

lemma missing_connection_no_calls:
  assumes "connection_read e u k s" and "connection e u k s = None"
  shows "calls (run e) = []"
proof -
  from assms(2) have m: "missing (or_env u (process_env e ''KOMODO_URL''))
     \<or> missing (or_env k (process_env e ''KOMODO_API_KEY''))
     \<or> missing (or_env s (process_env e ''KOMODO_API_SECRET''))"
    by (simp add: connection_None)
  from assms(1) have g: "getInput e ''komodo-url'' False = Inr u"
    "getInput e ''api-key'' False = Inr k" "getInput e ''api-secret'' False = Inr s"
    by (simp_all add: connection_read_def)
  have "calls (fst (run_try e)) = [] \<and> writes (fst (run_try e)) = []"
    unfolding run_try_def
    apply (simp only: g bind_lift_Inr Let_def m [THEN eqTrueI] if_True)
    apply (intro calls_bind calls_seq calls_if)
    apply (simp_all add: fst_snd_actions patterns_join_silent)
    done
  then show ?thesis by (simp add: calls_run)
qed

section \<open>Thrown values and the failure report\<close>

lemma tq_bind:
  "thrown_quiet (bind m f)" if "failures (fst m) = []" and "\<And>x. thrown_quiet (f x)"
proof (cases "snd m")
  case (Inl t)
  then show ?thesis by (simp add: thrown_quiet_def bind_fst_snd that(1))
next
  case (Inr x)
  with that(1) that(2) [of x] show ?thesis
    by (simp add: thrown_quiet_def bind_fst_snd failures_append split: sum.splits)
qed

lemma tq_seq:
  "failures (fst m) = [] \<Longrightarrow> thrown_quiet k \<Longrightarrow> thrown_quiet (seq m k)"
  by (simp add: seq_def tq_bind)

lemma tq_if:
  "thrown_quiet a \<Longrightarrow> thrown_quiet b \<Longrightarrow> thrown_quiet (if c then a else b)"
  by simp

lemma tq_emit: "thrown_quiet (emit ev)"
  by (simp add: thrown_quiet_def fst_snd_actions)

lemma tq_quiet: "failures (fst m) = [] \<Longrightarrow> thrown_quiet m"
  by (simp add: thrown_quiet_def split: sum.splits)

lemma patterns_join_quiet: "failures (fst (patterns_join p)) = []"
  by (simp add: patterns_join_cases split: jsval.splits)

lemma run_try_thrown_quiet: "thrown_quiet (run_try e)"
  unfolding run_try_def Let_def
  by (intro tq_bind tq_seq tq_if tq_emit)
     (simp_all add: fst_snd_actions patterns_join_quiet dispatch_quiet tq_quiet
        writeStepSummary_quiet)

lemma run_failures:
  "snd (run_try e) = Inl err \<Longrightarrow>
   failures (run e) = (case err of Error message \<Rightarrow> [message] | NonError _ \<Rightarrow> [])"
  using run_try_thrown_quiet [of e]
  by (cases "run_try e")
     (simp add: run_def thrown_quiet_def failures_append catch_err_def split: thrown.splits)

section \<open>Example environments\<close>

lemmas example_defs =
  example_env_def core_getInput_def input_of_def example_parse_def credentials_def
  summary_sink_def inputs_read_def connection_read_def connection_def or_env_def missing_def
  json_app_def json_a_b_def json_object_def

lemmas run_eval =
  run_def run_try_def action_simps fst_snd_actions patterns_join_cases nothing_to_update_def
  elements_def updateStatusMap_def writeStepSummary_def summary_markdown_empty catch_err_def
  not_primitive_def

section \<open>A run over an empty target list\<close>

text \<open>
  C1 (as amended). In a run that reads its inputs (the required \<^verbatim>\<open>kind\<close> and
  \<^verbatim>\<open>patterns\<close> are supplied), whose \<^verbatim>\<open>patterns\<close> text parses to the empty array,
  whose dry-run input is not \<^verbatim>\<open>true\<close> and whose three connection parameters are
  present, the output \<^verbatim>\<open>updates\<close> is set twice: first to the string
  \<^verbatim>\<open>Nothing to update here\<close>, then to the empty mapping; no remote call is made; and
  no failure is reported provided the summary write, when a summary file is configured,
  does not reject.
\<close>

theorem empty_targets_run:
  assumes "inputs_read e kind raw dry" and "dry \<noteq> ''true''"
    and "JSON_parse e raw = Inr (JArr [])"
    and "connection_read e u k s" and "connection e u k s = Some (url, key, secret)"
  shows "outputs (run e) = [JStr sentinel, JObj []]
     \<and> calls (run e) = []
     \<and> ((\<forall>f. process_env e ''GITHUB_STEP_SUMMARY'' = Some f \<and> f \<noteq> [] \<longrightarrow>
            writeFile e f summary_header = None) \<longrightarrow> failures (run e) = [])"
proof -
  have d: "snd (dispatch (KomodoClient e url key secret) kind [] 0 []) = Inr []"
    by (simp add: ret_def)
  have m: "updateStatusMap [] = []"
    by (simp add: updateStatusMap_def)
  have j: "join_js [] '', '' = Inr []" by simp
  note r = run_completed [OF assms(1-3) j assms(4,5) d, unfolded m]
  have w: "outputs (case snd (writeStepSummary e []) of Inl err \<Rightarrow> catch_err err | Inr _ \<Rightarrow> []) = []"
    by (simp add: catch_err_def split: sum.splits thrown.splits)
  have c: "calls (case snd (writeStepSummary e []) of Inl err \<Rightarrow> catch_err err | Inr _ \<Rightarrow> []) = []"
    by (simp add: catch_err_def split: sum.splits thrown.splits)
  have "outputs (run e) = [JStr sentinel, JObj []]"
    by (simp add: r outputs_append observe_preamble writeStepSummary_quiet w ret_def)
  moreover have "calls (run e) = []"
    by (simp add: r calls_append observe_preamble writeStepSummary_quiet c ret_def)
  moreover have "failures (run e) = []"
    if "\<forall>f. process_env e ''GITHUB_STEP_SUMMARY'' = Some f \<and> f \<noteq> [] \<longrightarrow>
            writeFile e f summary_header = None"
    using writeStepSummary_written [OF summary_markdown_empty that]
    by (simp add: r failures_append observe_preamble writeStepSummary_quiet ret_def)
  ultimately show ?thesis by blast
qed

theorem empty_targets_run_witness:
  "inputs_read empty_targets_env ''stack'' ''[]'' ''false''
   \<and> JSON_parse empty_targets_env ''[]'' = Inr (JArr [])
   \<and> connection_read empty_targets_env ''https://komodo.example.com'' ''fake-key'' ''fake-secret''
   \<and> connection empty_targets_env ''https://komodo.example.com'' ''fake-key'' ''fake-secret''
       = Some (''https://komodo.example.com'', ''fake-key'', ''fake-secret'')
   \<and> outputs (run empty_targets_env) = [JStr ''Nothing to update here'', JObj []]
   \<and> calls (run empty_targets_env) = []
   \<and> failures (run empty_targets_env) = []"
proof -
  have h1: "inputs_read empty_targets_env ''stack'' ''[]'' ''false''"
    by (simp add: empty_targets_env_def example_defs)
  have h2: "''false'' \<noteq> ''true''" by simp
  have h3: "JSON_parse empty_targets_env ''[]'' = Inr (JArr [])"
    by (simp add: empty_targets_env_def example_defs)
  have h4: "connection_read empty_targets_env ''https://komodo.example.com'' ''fake-key'' ''fake-secret''"
    by (simp add: empty_targets_env_def example_defs)
  have h5: "connection empty_targets_env ''https://komodo.example.com'' ''fake-key'' ''fake-secret''
       = Some (''https://komodo.example.com'', ''fake-key'', ''fake-secret'')"
    by (simp add: empty_targets_env_def example_defs)
  have h6: "\<forall>f. process_env empty_targets_env ''GITHUB_STEP_SUMMARY'' = Some f \<and> f \<noteq> [] \<longrightarrow>
            writeFile empty_targets_env f summary_header = None"
    by (simp add: empty_targets_env_def example_env_def write_ok_def)
  from empty_targets_run [OF h1 h2 h3 h4 h5] h1 h3 h4 h5 h6 show ?thesis
    by (simp add: sentinel_def)
qed

theorem empty_targets_run_counterexample:
  "inputs_read empty_targets_denied_env ''stack'' ''[]'' ''false''
   \<and> JSON_parse empty_targets_denied_env ''[]'' = Inr (JArr [])
   \<and> connection empty_targets_denied_env ''https://komodo.example.com'' ''fake-key'' ''fake-secret''
       = Some (''https://komodo.example.com'', ''fake-key'', ''fake-secret'')
   \<and> failures (run empty_targets_denied_env) = [''EACCES: permission denied'']
   \<and> getInput empty_targets_no_kind_env ''patterns'' True = Inr ''[]''
   \<and> JSON_parse empty_targets_no_kind_env ''[]'' = Inr (JArr [])
   \<and> getInput empty_targets_no_kind_env ''dry-run'' False = Inr ''false''
   \<and> connection empty_targets_no_kind_env ''https://komodo.example.com'' ''fake-key'' ''fake-secret''
       = Some (''https://komodo.example.com'', ''fake-key'', ''fake-secret'')
   \<and> run empty_targets_no_kind_env = [SetFailed ''Input required and not supplied: kind'']"
  by (simp add: empty_targets_denied_env_def empty_targets_no_kind_env_def example_defs
      run_def run_try_def action_simps fst_snd_actions patterns_join_cases nothing_to_update_def
      elements_def updateStatusMap_def writeStepSummary_def summary_markdown_empty
      write_denied_def catch_err_def)

section \<open>Dry runs\<close>

text \<open>
  C4 (as amended). Whenever the dry-run input reads \<^verbatim>\<open>true\<close>, the run makes no
  remote call and writes nothing to the summary file. When moreover the inputs
  \<^verbatim>\<open>kind\<close> and \<^verbatim>\<open>patterns\<close> are supplied and the \<^verbatim>\<open>patterns\<close> text parses to
  an array whose elements convert to strings (as the elements of every array of strings
  do), the last value given to the output \<^verbatim>\<open>updates\<close> is the empty mapping (preceded
  by the sentinel string when the array is empty).
\<close>

theorem dry_run_no_deploy:
  "(getInput e ''dry-run'' False = Inr ''true'' \<longrightarrow> calls (run e) = [] \<and> writes (run e) = [])
   \<and> (inputs_read e kind raw ''true'' \<and> JSON_parse e raw = Inr (JArr names)
        \<and> join_js names '', '' = Inr joined \<longrightarrow>
        outputs (run e) = (if names = [] then [JStr sentinel] else []) @ [JObj []])"
proof -
  have "outputs (run e) = (if names = [] then [JStr sentinel] else []) @ [JObj []]"
    if "inputs_read e kind raw ''true''" and "JSON_parse e raw = Inr (JArr names)"
      and "join_js names '', '' = Inr joined"
    by (simp add: run_dry [OF that] outputs_append observe_preamble)
  then show ?thesis by (simp add: dry_run_no_calls)
qed

theorem dry_run_no_deploy_witness:
  "getInput (dry_run_env json_a_b) ''dry-run'' False = Inr ''true''
   \<and> inputs_read (dry_run_env json_a_b) ''stack'' json_a_b ''true''
   \<and> JSON_parse (dry_run_env json_a_b) json_a_b = Inr (JArr [JStr ''a'', JStr ''b''])
   \<and> join_js [JStr ''a'', JStr ''b''] '', '' = Inr ''a, b''
   \<and> calls (run (dry_run_env json_a_b)) = []
   \<and> writes (run (dry_run_env json_a_b)) = []
   \<and> outputs (run (dry_run_env json_a_b)) = [JObj []]"
proof -
  have h1: "inputs_read (dry_run_env json_a_b) ''stack'' json_a_b ''true''"
    by (simp add: dry_run_env_def example_defs)
  have h2: "JSON_parse (dry_run_env json_a_b) json_a_b = Inr (JArr [JStr ''a'', JStr ''b''])"
    by (simp add: dry_run_env_def example_defs)
  have h3: "join_js [JStr ''a'', JStr ''b''] '', '' = Inr ''a, b''"
    by simp
  from h1 have h0: "getInput (dry_run_env json_a_b) ''dry-run'' False = Inr ''true''"
    by (simp add: inputs_read_def)
  from dry_run_no_deploy [of "dry_run_env json_a_b" "''stack''" json_a_b "[JStr ''a'', JStr ''b'']"
      "''a, b''"] h0 h1 h2 h3
  show ?thesis by simp
qed

theorem dry_run_no_deploy_counterexample:
  "getInput (dry_run_env ''['') ''dry-run'' False = Inr ''true''
   \<and> run (dry_run_env ''['') = [SetFailed ''Unexpected end of JSON input'']
   \<and> getInput (dry_run_env json_app) ''dry-run'' False = Inr ''true''
   \<and> JSON_parse (dry_run_env json_app) json_app = Inr (JStr ''app'')
   \<and> run (dry_run_env json_app)
       = [SetOutput ''updates'' (JStr ''Nothing to update here''), Info ''Kind: stack'',
          SetFailed ''patterns.join is not a function'']
   \<and> getInput (dry_run_env json_object) ''dry-run'' False = Inr ''true''
   \<and> JSON_parse (dry_run_env json_object) json_object
       = Inr (JArr [JObj [(''toString'', JNum ''1'')]])
   \<and> run (dry_run_env json_object)
       = [Info ''Kind: stack'', SetFailed ''Cannot convert object to primitive value'']
   \<and> getInput dry_run_no_kind_env ''dry-run'' False = Inr ''true''
   \<and> run dry_run_no_kind_env = [SetFailed ''Input required and not supplied: kind'']"
  by (simp add: dry_run_env_def dry_run_no_kind_env_def example_defs run_eval sentinel_def)

text \<open>
  C10 (as amended). Whenever the dry-run input reads \<^verbatim>\<open>true\<close>, the run is the same
  for every way of reading the three connection inputs and for every environment, so
  also when all three connection parameters are absent: the dry-run return comes before
  they are read. When moreover the inputs \<^verbatim>\<open>kind\<close> and \<^verbatim>\<open>patterns\<close> are supplied
  and the \<^verbatim>\<open>patterns\<close> text parses to an array whose elements convert to strings,
  the run reports no failure and ends by setting the output \<^verbatim>\<open>updates\<close> to the empty
  mapping.
\<close>

theorem dry_run_needs_no_connection:
  "(getInput e ''dry-run'' False = Inr ''true'' \<longrightarrow>
      run (e\<lparr>getInput := (\<lambda>name required.
                 if name = ''komodo-url'' \<or> name = ''api-key'' \<or> name = ''api-secret''
                 then g name required else getInput e name required),
              process_env := vars\<rparr>) = run e)
   \<and> (inputs_read e kind raw ''true'' \<and> JSON_parse e raw = Inr (JArr names)
        \<and> join_js names '', '' = Inr joined \<longrightarrow>
        failures (run e) = [] \<and> last (run e) = SetOutput ''updates'' (JObj []))"
proof -
  have "failures (run e) = [] \<and> last (run e) = SetOutput ''updates'' (JObj [])"
    if "inputs_read e kind raw ''true''" and "JSON_parse e raw = Inr (JArr names)"
      and "join_js names '', '' = Inr joined"
    by (simp add: run_dry [OF that] failures_append observe_preamble)
  then show ?thesis by (simp add: dry_run_independent)
qed

theorem dry_run_needs_no_connection_witness:
  "getInput (dry_run_bare_env json_a_b) ''dry-run'' False = Inr ''true''
   \<and> inputs_read (dry_run_bare_env json_a_b) ''stack'' json_a_b ''true''
   \<and> JSON_parse (dry_run_bare_env json_a_b) json_a_b = Inr (JArr [JStr ''a'', JStr ''b''])
   \<and> join_js [JStr ''a'', JStr ''b''] '', '' = Inr ''a, b''
   \<and> connection_read (dry_run_bare_env json_a_b) [] [] []
   \<and> connection (dry_run_bare_env json_a_b) [] [] [] = None
   \<and> failures (run (dry_run_bare_env json_a_b)) = []
   \<and> last (run (dry_run_bare_env json_a_b)) = SetOutput ''updates'' (JObj [])
   \<and> run ((dry_run_bare_env json_a_b)
         \<lparr>getInput := (\<lambda>name required.
              if name = ''komodo-url'' \<or> name = ''api-key'' \<or> name = ''api-secret''
              then core_getInput credentials name required
              else getInput (dry_run_bare_env json_a_b) name required),
          process_env := map_of summary_sink\<rparr>)
       = run (dry_run_bare_env json_a_b)"
proof -
  have h1: "inputs_read (dry_run_bare_env json_a_b) ''stack'' json_a_b ''true''"
    by (simp add: dry_run_bare_env_def example_defs)
  have h2: "JSON_parse (dry_run_bare_env json_a_b) json_a_b = Inr (JArr [JStr ''a'', JStr ''b''])"
    by (simp add: dry_run_bare_env_def example_defs)
  have h3: "join_js [JStr ''a'', JStr ''b''] '', '' = Inr ''a, b''"
    by simp
  have h4: "connection_read (dry_run_bare_env json_a_b) [] [] []
     \<and> connection (dry_run_bare_env json_a_b) [] [] [] = None"
    by (simp add: dry_run_bare_env_def example_defs)
  from h1 have h0: "getInput (dry_run_bare_env json_a_b) ''dry-run'' False = Inr ''true''"
    by (simp add: inputs_read_def)
  note c = dry_run_needs_no_connection
    [where e = "dry_run_bare_env json_a_b" and g = "core_getInput credentials"
      and vars = "map_of summary_sink" and kind = "''stack''" and raw = json_a_b
      and names = "[JStr ''a'', JStr ''b'']" and joined = "''a, b''"]
  from c [THEN conjunct1] h0
  have i: "run ((dry_run_bare_env json_a_b)
         \<lparr>getInput := (\<lambda>name required.
              if name = ''komodo-url'' \<or> name = ''api-key'' \<or> name = ''api-secret''
              then core_getInput credentials name required
              else getInput (dry_run_bare_env json_a_b) name required),
          process_env := map_of summary_sink\<rparr>)
       = run (dry_run_bare_env json_a_b)"
    by blast
  from c [THEN conjunct2] h1 h2 h3
  have "failures (run (dry_run_bare_env json_a_b)) = []
     \<and> last (run (dry_run_bare_env json_a_b)) = SetOutput ''updates'' (JObj [])"
    by blast
  with h0 h1 h2 h3 h4 i show ?thesis by blast
qed

theorem dry_run_needs_no_connection_counterexample:
  "getInput (dry_run_bare_env ''['') ''dry-run'' False = Inr ''true''
   \<and> connection (dry_run_bare_env ''['') [] [] [] = None
   \<and> run (dry_run_bare_env ''['') = [SetFailed ''Unexpected end of JSON input'']
   \<and> getInput (dry_run_bare_env json_app) ''dry-run'' False = Inr ''true''
   \<and> JSON_parse (dry_run_bare_env json_app) json_app = Inr (JStr ''app'')
   \<and> run (dry_run_bare_env json_app)
       = [SetOutput ''updates'' (JStr ''Nothing to update here''), Info ''Kind: stack'',
          SetFailed ''patterns.join is not a function'']
   \<and> getInput (dry_run_bare_env json_object) ''dry-run'' False = Inr ''true''
   \<and> JSON_parse (dry_run_bare_env json_object) json_object
       = Inr (JArr [JObj [(''toString'', JNum ''1'')]])
   \<and> run (dry_run_bare_env json_object)
       = [Info ''Kind: stack'', SetFailed ''Cannot convert object to primitive value'']
   \<and> getInput dry_run_bare_no_kind_env ''dry-run'' False = Inr ''true''
   \<and> run dry_run_bare_no_kind_env = [SetFailed ''Input required and not supplied: kind'']"
  by (simp add: dry_run_bare_env_def dry_run_bare_no_kind_env_def example_defs run_eval
      sentinel_def)

section \<open>Missing connection parameters\<close>

text \<open>
  C5 (as amended). If one of the three connection parameters is empty as an input and
  unset or empty in its environment variable, the run makes no remote call. When moreover
  the run reads its inputs, the \<^verbatim>\<open>patterns\<close> text parses to an array whose elements
  convert to strings and the dry-run input is not \<^verbatim>\<open>true\<close>, the run reports exactly
  one failure, with the message
  \<^verbatim>\<open>Komodo URL / API key / API secret must be provided either via input or env\<close>, as its
  last effect.
\<close>

theorem missing_connection_fails:
  "(connection_read e u k s
      \<and> ((u = [] \<and> missing (process_env e ''KOMODO_URL''))
         \<or> (k = [] \<and> missing (process_env e ''KOMODO_API_KEY''))
         \<or> (s = [] \<and> missing (process_env e ''KOMODO_API_SECRET'')))
     \<longrightarrow> calls (run e) = [])
   \<and> (inputs_read e kind raw dry \<and> dry \<noteq> ''true''
      \<and> JSON_parse e raw = Inr (JArr names) \<and> join_js names '', '' = Inr joined
      \<and> connection_read e u k s
      \<and> ((u = [] \<and> missing (process_env e ''KOMODO_URL''))
         \<or> (k = [] \<and> missing (process_env e ''KOMODO_API_KEY''))
         \<or> (s = [] \<and> missing (process_env e ''KOMODO_API_SECRET'')))
     \<longrightarrow> failures (run e) = [config_error] \<and> last (run e) = SetFailed config_error)"
proof -
  have none: "connection e u k s = None"
    if "(u = [] \<and> missing (process_env e ''KOMODO_URL''))
         \<or> (k = [] \<and> missing (process_env e ''KOMODO_API_KEY''))
         \<or> (s = [] \<and> missing (process_env e ''KOMODO_API_SECRET''))"
    using that by (auto simp: connection_None or_env_def)
  have "calls (run e) = []"
    if "connection_read e u k s"
      and "(u = [] \<and> missing (process_env e ''KOMODO_URL''))
         \<or> (k = [] \<and> missing (process_env e ''KOMODO_API_KEY''))
         \<or> (s = [] \<and> missing (process_env e ''KOMODO_API_SECRET''))"
    using missing_connection_no_calls [OF that(1) none [OF that(2)]] .
  moreover have "failures (run e) = [config_error] \<and> last (run e) = SetFailed config_error"
    if "inputs_read e kind raw dry" and "dry \<noteq> ''true''"
      and "JSON_parse e raw = Inr (JArr names)" and "join_js names '', '' = Inr joined"
      and "connection_read e u k s"
      and "(u = [] \<and> missing (process_env e ''KOMODO_URL''))
         \<or> (k = [] \<and> missing (process_env e ''KOMODO_API_KEY''))
         \<or> (s = [] \<and> missing (process_env e ''KOMODO_API_SECRET''))"
    using run_config [OF that(1-5) none [OF that(6)]]
    by (simp add: failures_append observe_preamble)
  ultimately show ?thesis by blast
qed

theorem missing_connection_fails_witness:
  "inputs_read (no_api_key_env json_a_b) ''stack'' json_a_b ''false''
   \<and> JSON_parse (no_api_key_env json_a_b) json_a_b = Inr (JArr [JStr ''a'', JStr ''b''])
   \<and> join_js [JStr ''a'', JStr ''b''] '', '' = Inr ''a, b''
   \<and> connection_read (no_api_key_env json_a_b) ''https://komodo.example.com'' [] ''fake-secret''
   \<and> missing (process_env (no_api_key_env json_a_b) ''KOMODO_API_KEY'')
   \<and> failures (run (no_api_key_env json_a_b))
       = [''Komodo URL / API key / API secret must be provided either via input or env'']
   \<and> last (run (no_api_key_env json_a_b))
       = SetFailed ''Komodo URL / API key / API secret must be provided either via input or env''
   \<and> calls (run (no_api_key_env json_a_b)) = []"
proof -
  let ?e = "no_api_key_env json_a_b"
  have h1: "inputs_read ?e ''stack'' json_a_b ''false''"
    by (simp add: no_api_key_env_def example_defs)
  have h2: "''false'' \<noteq> ''true''" by simp
  have h3: "JSON_parse ?e json_a_b = Inr (JArr [JStr ''a'', JStr ''b''])"
    by (simp add: no_api_key_env_def example_defs)
  have h4: "join_js [JStr ''a'', JStr ''b''] '', '' = Inr ''a, b''"
    by simp
  have h5: "connection_read ?e ''https://komodo.example.com'' [] ''fake-secret''"
    by (simp add: no_api_key_env_def example_defs)
  have h6: "missing (process_env ?e ''KOMODO_API_KEY'')"
    by (simp add: no_api_key_env_def example_defs)
  then have h7: "(''https://komodo.example.com'' = [] \<and> missing (process_env ?e ''KOMODO_URL''))
       \<or> ([] = ([]::string) \<and> missing (process_env ?e ''KOMODO_API_KEY''))
       \<or> (''fake-secret'' = [] \<and> missing (process_env ?e ''KOMODO_API_SECRET''))"
    by simp
  note c = missing_connection_fails
    [where e = ?e and u = "''https://komodo.example.com''" and k = "[]" and s = "''fake-secret''"
      and kind = "''stack''" and raw = json_a_b and dry = "''false''"
      and names = "[JStr ''a'', JStr ''b'']" and joined = "''a, b''"]
  from c [THEN conjunct1] h5 h7 have a: "calls (run ?e) = []"
    by blast
  from c [THEN conjunct2] h1 h2 h3 h4 h5 h7
  have b: "failures (run ?e) = [config_error] \<and> last (run ?e) = SetFailed config_error"
    by blast
  from a b h1 h3 h4 h5 h6 show ?thesis
    by (simp add: config_error_def)
qed

theorem missing_connection_fails_counterexample:
  "getInput (no_api_key_env ''['') ''dry-run'' False = Inr ''false''
   \<and> connection_read (no_api_key_env ''['') ''https://komodo.example.com'' [] ''fake-secret''
   \<and> missing (process_env (no_api_key_env ''['') ''KOMODO_API_KEY'')
   \<and> run (no_api_key_env ''['') = [SetFailed ''Unexpected end of JSON input'']
   \<and> connection_read (no_api_key_env json_app) ''https://komodo.example.com'' [] ''fake-secret''
   \<and> JSON_parse (no_api_key_env json_app) json_app = Inr (JStr ''app'')
   \<and> run (no_api_key_env json_app)
       = [SetOutput ''updates'' (JStr ''Nothing to update here''), Info ''Kind: stack'',
          SetFailed ''patterns.join is not a function'']
   \<and> connection_read (no_api_key_env json_object) ''https://komodo.example.com'' [] ''fake-secret''
   \<and> JSON_parse (no_api_key_env json_object) json_object
       = Inr (JArr [JObj [(''toString'', JNum ''1'')]])
   \<and> run (no_api_key_env json_object)
       = [Info ''Kind: stack'', SetFailed ''Cannot convert object to primitive value'']
   \<and> connection_read no_api_key_no_kind_env ''https://komodo.example.com'' [] ''fake-secret''
   \<and> missing (process_env no_api_key_no_kind_env ''KOMODO_API_KEY'')
   \<and> run no_api_key_no_kind_env = [SetFailed ''Input required and not supplied: kind'']"
  by (simp add: no_api_key_env_def no_api_key_no_kind_env_def example_defs run_eval sentinel_def)

section \<open>A call that rejects\<close>

text \<open>
  C3 (as amended). In a run that reaches the dispatch loop with a supported kind, if the
  calls for the first targets resolve and the next call rejects, then the calls made are
  those for the targets up to and including the failing one (no later target is called),
  the output \<^verbatim>\<open>updates\<close> is never set and nothing is written to the summary; and the
  run is reported failed with exactly the message of the rejection when the value rejected
  with is an \<^verbatim>\<open>Error\<close>, while for any other rejection value no failure is reported.
\<close>

theorem rejected_call_aborts:
  assumes "inputs_read e kind raw dry" and "dry \<noteq> ''true''"
    and "JSON_parse e raw = Inr (JArr names)" and "join_js names '', '' = Inr joined"
    and "connection_read e u k s" and "connection e u k s = Some (url, key, secret)"
    and "supported kind"
    and "answers (KomodoClient e url key secret) kind 0 names = map Inr rs @ Inl err # later"
  shows "calls (run e) = map (call_for kind) (take (Suc (length rs)) names)
     \<and> outputs (run e) = []
     \<and> writes (run e) = []
     \<and> failures (run e) = (case err of Error message \<Rightarrow> [message] | NonError _ \<Rightarrow> [])"
proof -
  note d = dispatch_rejected [OF assms(7) join_js_printable [OF assms(4)] assms(8), of "[]"]
  from assms(8) have ne: "names \<noteq> []" by auto
  note r = run_rejected [OF assms(1-6) d [THEN conjunct1]]
  have "calls (run e) = map (call_for kind) (take (Suc (length rs)) names)"
    using d by (simp add: calls_run_dispatch [OF assms(1-6)])
  moreover have "outputs (run e) = []"
    using ne by (simp add: r outputs_append observe_preamble dispatch_quiet observe_catch_err)
  moreover have "writes (run e) = []"
    by (simp add: r writes_append observe_preamble dispatch_quiet observe_catch_err)
  moreover have "failures (run e) = (case err of Error message \<Rightarrow> [message] | NonError _ \<Rightarrow> [])"
    by (simp add: r failures_append observe_preamble dispatch_quiet catch_err_def
        split: thrown.splits)
  ultimately show ?thesis by simp
qed


theorem rejected_call_aborts_witness:
  "inputs_read (two_targets_env (remote_rejects_at 1 (Error ''boom''))) ''stack'' json_a_b ''false''
   \<and> JSON_parse (two_targets_env (remote_rejects_at 1 (Error ''boom''))) json_a_b
       = Inr (JArr [JStr ''a'', JStr ''b''])
   \<and> join_js [JStr ''a'', JStr ''b''] '', '' = Inr ''a, b''
   \<and> supported ''stack''
   \<and> answers (remote_rejects_at 1 (Error ''boom'')) ''stack'' 0 [JStr ''a'', JStr ''b'']
       = map Inr [Many [update_item ''id1'' ''Complete'']] @ Inl (Error ''boom'') # []
   \<and> calls (run (two_targets_env (remote_rejects_at 1 (Error ''boom''))))
       = [(''DeployStack'', JObj [(''stack'', JStr ''a'')]),
          (''DeployStack'', JObj [(''stack'', JStr ''b'')])]
   \<and> outputs (run (two_targets_env (remote_rejects_at 1 (Error ''boom'')))) = []
   \<and> writes (run (two_targets_env (remote_rejects_at 1 (Error ''boom'')))) = []
   \<and> failures (run (two_targets_env (remote_rejects_at 1 (Error ''boom'')))) = [''boom'']"
proof -
  let ?e = "two_targets_env (remote_rejects_at 1 (Error ''boom''))"
  have h1: "inputs_read ?e ''stack'' json_a_b ''false''"
    by (simp add: two_targets_env_def example_defs)
  have h2: "''false'' \<noteq> ''true''" by simp
  have h3: "JSON_parse ?e json_a_b = Inr (JArr [JStr ''a'', JStr ''b''])"
    by (simp add: two_targets_env_def example_defs)
  have h4: "connection_read ?e ''https://komodo.example.com'' ''fake-key'' ''fake-secret''"
    by (simp add: two_targets_env_def example_defs)
  have h5: "connection ?e ''https://komodo.example.com'' ''fake-key'' ''fake-secret''
       = Some (''https://komodo.example.com'', ''fake-key'', ''fake-secret'')"
    by (simp add: two_targets_env_def example_defs)
  have hj: "join_js [JStr ''a'', JStr ''b''] '', '' = Inr ''a, b''" by simp
  have h6: "supported ''stack''" by (simp add: supported_def)
  have a: "answers (remote_rejects_at 1 (Error ''boom'')) ''stack'' 0 [JStr ''a'', JStr ''b'']
       = map Inr [Many [update_item ''id1'' ''Complete'']] @ Inl (Error ''boom'') # []"
    by (simp add: answer_def remote_rejects_at_def)
  then have h7: "answers (KomodoClient ?e ''https://komodo.example.com'' ''fake-key'' ''fake-secret'')
       ''stack'' 0 [JStr ''a'', JStr ''b'']
       = map Inr [Many [update_item ''id1'' ''Complete'']] @ Inl (Error ''boom'') # []"
    by (simp add: two_targets_env_def example_env_def)
  from rejected_call_aborts [OF h1 h2 h3 hj h4 h5 h6 h7] h1 h3 hj h6 a show ?thesis
    by (simp add: call_for_def)
qed

theorem rejected_call_aborts_counterexample:
  "inputs_read (two_targets_env (remote_rejects_at 0 (NonError server_error))) ''stack'' json_a_b ''false''
   \<and> JSON_parse (two_targets_env (remote_rejects_at 0 (NonError server_error))) json_a_b
       = Inr (JArr [JStr ''a'', JStr ''b''])
   \<and> answer (remote_rejects_at 0 (NonError server_error)) ''stack'' 0 (JStr ''a'')
       = Inl (NonError server_error)
   \<and> calls (run (two_targets_env (remote_rejects_at 0 (NonError server_error))))
       = [(''DeployStack'', JObj [(''stack'', JStr ''a'')])]
   \<and> failures (run (two_targets_env (remote_rejects_at 0 (NonError server_error)))) = []"
  by (simp add: two_targets_env_def example_defs run_eval answer_def remote_rejects_at_def
      dispatch.simps(2) executeOne_def)

section \<open>The order of the remote calls\<close>

text \<open>
  C6 (as amended). In a run that reaches the dispatch loop, the remote calls are made one
  after the other in target-list order: the calls made are always those for an initial
  segment of the target list, one call per target of that segment. When the kind is
  supported and every call resolves, that segment is the whole list, so that every target
  gets exactly one call. The call for the next target is made only once the call before
  it has resolved: when a call rejects, the calls made end with it and no later target is
  called.
\<close>

theorem calls_in_target_order:
  assumes "inputs_read e kind raw dry" and "dry \<noteq> ''true''"
    and "JSON_parse e raw = Inr (JArr names)"
    and "connection_read e u k s" and "connection e u k s = Some (url, key, secret)"
  shows "prefix (calls (run e)) (map (call_for kind) names)
     \<and> (join_js names '', '' = Inr joined \<and> supported kind
          \<and> answers (KomodoClient e url key secret) kind 0 names = map Inr rs
          \<longrightarrow> calls (run e) = map (call_for kind) names)
     \<and> (join_js names '', '' = Inr joined \<and> supported kind
          \<and> answers (KomodoClient e url key secret) kind 0 names = map Inr rs' @ Inl err # later
          \<longrightarrow> calls (run e) = map (call_for kind) (take (Suc (length rs')) names))"
proof -
  have "prefix (calls (run e)) (map (call_for kind) names)"
  proof (cases "join_js names '', ''")
    case (Inl t)
    with assms(1,3) have "calls (run e) = []"
      by (simp add: run_def run_try_def inputs_read_def action_simps fst_snd_actions
          patterns_join_cases observe_catch_err)
    then show ?thesis by simp
  next
    case (Inr joined')
    show ?thesis
      by (simp add: calls_run_dispatch [OF assms(1-3) Inr assms(4,5)] dispatch_calls_prefix)
  qed
  moreover have "calls (run e) = map (call_for kind) names"
    if "join_js names '', '' = Inr joined" and "supported kind"
      and "answers (KomodoClient e url key secret) kind 0 names = map Inr rs"
    using dispatch_resolved [OF that(2) join_js_printable [OF that(1)] that(3), of "[]"]
    by (simp add: calls_run_dispatch [OF assms(1-3) that(1) assms(4,5)])
  moreover have "calls (run e) = map (call_for kind) (take (Suc (length rs')) names)"
    if "join_js names '', '' = Inr joined" and "supported kind"
      and "answers (KomodoClient e url key secret) kind 0 names = map Inr rs' @ Inl err # later"
    using dispatch_rejected [OF that(2) join_js_printable [OF that(1)] that(3), of "[]"]
    by (simp add: calls_run_dispatch [OF assms(1-3) that(1) assms(4,5)])
  ultimately show ?thesis by blast
qed

theorem calls_in_target_order_witness:
  "inputs_read (two_targets_env remote_ok) ''stack'' json_a_b ''false''
   \<and> JSON_parse (two_targets_env remote_ok) json_a_b = Inr (JArr [JStr ''a'', JStr ''b''])
   \<and> join_js [JStr ''a'', JStr ''b''] '', '' = Inr ''a, b''
   \<and> supported ''stack''
   \<and> answers remote_ok ''stack'' 0 [JStr ''a'', JStr ''b'']
       = map Inr [Many [update_item ''id1'' ''Complete''], Many [update_item ''id1'' ''Complete'']]
   \<and> calls (run (two_targets_env remote_ok))
       = [(''DeployStack'', JObj [(''stack'', JStr ''a'')]),
          (''DeployStack'', JObj [(''stack'', JStr ''b'')])]"
proof -
  let ?e = "two_targets_env remote_ok"
  have h1: "inputs_read ?e ''stack'' json_a_b ''false''"
    by (simp add: two_targets_env_def example_defs)
  have h2: "''false'' \<noteq> ''true''" by simp
  have h3: "JSON_parse ?e json_a_b = Inr (JArr [JStr ''a'', JStr ''b''])"
    by (simp add: two_targets_env_def example_defs)
  have h4: "connection_read ?e ''https://komodo.example.com'' ''fake-key'' ''fake-secret''"
    by (simp add: two_targets_env_def example_defs)
  have h5: "connection ?e ''https://komodo.example.com'' ''fake-key'' ''fake-secret''
       = Some (''https://komodo.example.com'', ''fake-key'', ''fake-secret'')"
    by (simp add: two_targets_env_def example_defs)
  have hj: "join_js [JStr ''a'', JStr ''b''] '', '' = Inr ''a, b''" by simp
  have h6: "supported ''stack''" by (simp add: supported_def)
  have a: "answers remote_ok ''stack'' 0 [JStr ''a'', JStr ''b'']
       = map Inr [Many [update_item ''id1'' ''Complete''], Many [update_item ''id1'' ''Complete'']]"
    by (simp add: answer_def remote_ok_def)
  then have h7: "answers (KomodoClient ?e ''https://komodo.example.com'' ''fake-key'' ''fake-secret'')
       ''stack'' 0 [JStr ''a'', JStr ''b'']
       = map Inr [Many [update_item ''id1'' ''Complete''], Many [update_item ''id1'' ''Complete'']]"
    by (simp add: two_targets_env_def example_env_def)
  from calls_in_target_order [OF h1 h2 h3 h4 h5, THEN conjunct2, THEN conjunct1] hj h6 h7
  have "calls (run ?e) = map (call_for ''stack'') [JStr ''a'', JStr ''b'']"
    by blast
  with h1 h3 hj h6 a show ?thesis
    by (simp add: call_for_def)
qed

theorem calls_in_target_order_counterexample:
  "inputs_read (two_targets_env (remote_rejects_at 0 (Error ''boom''))) ''stack'' json_a_b ''false''
   \<and> JSON_parse (two_targets_env (remote_rejects_at 0 (Error ''boom''))) json_a_b
       = Inr (JArr [JStr ''a'', JStr ''b''])
   \<and> connection (two_targets_env (remote_rejects_at 0 (Error ''boom'')))
         ''https://komodo.example.com'' ''fake-key'' ''fake-secret''
       = Some (''https://komodo.example.com'', ''fake-key'', ''fake-secret'')
   \<and> calls (run (two_targets_env (remote_rejects_at 0 (Error ''boom''))))
       = [(''DeployStack'', JObj [(''stack'', JStr ''a'')])]"
  by (simp add: two_targets_env_def example_defs run_eval remote_rejects_at_def
      dispatch.simps(2) executeOne_def)

section \<open>Flattening and last write wins\<close>

text \<open>
  C8 (as amended). When every call resolves, the loop leaves in \<^verbatim>\<open>results\<close> the
  per-target results in target order with every list-valued result expanded in place (the
  concatenation of their items), and the run's final output is the status mapping of that
  flat sequence. For every identifier other than \<^verbatim>\<open>__proto__\<close>, the mapping sends
  the identifier to the status of the last result in the sequence that passes the filter
  and carries that identifier, so a later duplicate overwrites an earlier one; and each
  key occurs once.
\<close>

theorem results_flattened_last_wins:
  "(supported kind \<and> list_all printable names \<and> answers cl kind n names = map Inr rs
     \<longrightarrow> snd (dispatch cl kind names n collected) = Inr (collected @ concat (map items_of rs)))
   \<and> (inputs_read e kind raw dry \<and> dry \<noteq> ''true'' \<and> JSON_parse e raw = Inr (JArr names)
      \<and> join_js names '', '' = Inr joined
      \<and> connection_read e u k s \<and> connection e u k s = Some (url, key, secret)
      \<and> supported kind
      \<and> answers (KomodoClient e url key secret) kind 0 names = map Inr rs'
     \<longrightarrow> last (outputs (run e)) = JObj (updateStatusMap (concat (map items_of rs'))))
   \<and> (ident \<noteq> ''__proto__'' \<longrightarrow>
        map_of (updateStatusMap results) ident =
          (case filter (\<lambda>item. hasOid item \<and> oid item = JStr ident) results of
             [] \<Rightarrow> None
           | x # xs \<Rightarrow> Some (get_field (last (x # xs)) ''status'')))
   \<and> distinct (map fst (updateStatusMap results))"
proof -
  have "snd (dispatch cl kind names n collected) = Inr (collected @ concat (map items_of rs))"
    if "supported kind" and "list_all printable names"
      and "answers cl kind n names = map Inr rs"
    using dispatch_resolved [OF that] by simp
  moreover have "last (outputs (run e)) = JObj (updateStatusMap (concat (map items_of rs')))"
    if i: "inputs_read e kind raw dry" "dry \<noteq> ''true''" "JSON_parse e raw = Inr (JArr names)"
        "join_js names '', '' = Inr joined"
        "connection_read e u k s" "connection e u k s = Some (url, key, secret)"
      and k: "supported kind"
      and a: "answers (KomodoClient e url key secret) kind 0 names = map Inr rs'"
  proof -
    from dispatch_resolved [OF k join_js_printable [OF i(4)] a, of "[]"]
    have d: "snd (dispatch (KomodoClient e url key secret) kind names 0 [])
        = Inr (concat (map items_of rs'))"
      by simp
    show ?thesis
      by (simp add: run_completed [OF i d] outputs_append observe_preamble dispatch_quiet
          writeStepSummary_quiet observe_catch_err split: sum.splits)
  qed
  ultimately show ?thesis
    by (simp add: map_of_updateStatusMap distinct_keys_updateStatusMap)
qed

theorem results_flattened_last_wins_witness:
  "inputs_read (two_targets_env remote_mixed) ''stack'' json_a_b ''false''
   \<and> JSON_parse (two_targets_env remote_mixed) json_a_b = Inr (JArr [JStr ''a'', JStr ''b''])
   \<and> join_js [JStr ''a'', JStr ''b''] '', '' = Inr ''a, b''
   \<and> list_all printable [JStr ''a'', JStr ''b'']
   \<and> supported ''stack''
   \<and> answers remote_mixed ''stack'' 0 [JStr ''a'', JStr ''b'']
       = map Inr [Many [update_item ''id2'' ''Queued'', err_item, update_item ''id1'' ''InProgress''],
                  Single (update_item ''id1'' ''Complete'')]
   \<and> snd (dispatch remote_mixed ''stack'' [JStr ''a'', JStr ''b''] 0 [])
       = Inr [update_item ''id2'' ''Queued'', err_item, update_item ''id1'' ''InProgress'',
              update_item ''id1'' ''Complete'']
   \<and> last (outputs (run (two_targets_env remote_mixed)))
       = JObj [(''id2'', JStr ''Queued''), (''id1'', JStr ''Complete'')]
   \<and> ''id1'' \<noteq> ''__proto__''
   \<and> map_of (updateStatusMap
         [update_item ''id2'' ''Queued'', err_item, update_item ''id1'' ''InProgress'',
          update_item ''id1'' ''Complete'']) ''id1'' = Some (JStr ''Complete'')"
proof -
  let ?e = "two_targets_env remote_mixed"
  let ?rs = "[Many [update_item ''id2'' ''Queued'', err_item, update_item ''id1'' ''InProgress''],
                  Single (update_item ''id1'' ''Complete'')]"
  let ?flat = "[update_item ''id2'' ''Queued'', err_item, update_item ''id1'' ''InProgress'',
          update_item ''id1'' ''Complete'']"
  have h1: "inputs_read ?e ''stack'' json_a_b ''false''"
    by (simp add: two_targets_env_def example_defs)
  have h2: "''false'' \<noteq> ''true''" by simp
  have h3: "JSON_parse ?e json_a_b = Inr (JArr [JStr ''a'', JStr ''b''])"
    by (simp add: two_targets_env_def example_defs)
  have hj: "join_js [JStr ''a'', JStr ''b''] '', '' = Inr ''a, b''" by simp
  have hp: "list_all printable [JStr ''a'', JStr ''b'']" by (simp add: printable_def)
  have h4: "connection_read ?e ''https://komodo.example.com'' ''fake-key'' ''fake-secret''"
    by (simp add: two_targets_env_def example_defs)
  have h5: "connection ?e ''https://komodo.example.com'' ''fake-key'' ''fake-secret''
       = Some (''https://komodo.example.com'', ''fake-key'', ''fake-secret'')"
    by (simp add: two_targets_env_def example_defs)
  have h6: "supported ''stack''" by (simp add: supported_def)
  have a: "answers remote_mixed ''stack'' 0 [JStr ''a'', JStr ''b''] = map Inr ?rs"
    by (simp add: answer_def remote_mixed_def)
  then have h7: "answers (KomodoClient ?e ''https://komodo.example.com'' ''fake-key'' ''fake-secret'')
       ''stack'' 0 [JStr ''a'', JStr ''b''] = map Inr ?rs"
    by (simp add: two_targets_env_def example_env_def)
  have f: "concat (map items_of ?rs) = ?flat"
    by (simp add: items_of_def)
  have m: "updateStatusMap ?flat = [(''id2'', JStr ''Queued''), (''id1'', JStr ''Complete'')]"
    by (simp add: status_eval)
  have hk: "''id1'' \<noteq> ''__proto__''" by simp
  note c = results_flattened_last_wins [where kind = "''stack''" and cl = remote_mixed
      and n = 0 and names = "[JStr ''a'', JStr ''b'']" and rs = ?rs and collected = "[]"
      and e = ?e and raw = json_a_b and dry = "''false''" and joined = "''a, b''"
      and u = "''https://komodo.example.com''" and k = "''fake-key''" and s = "''fake-secret''"
      and url = "''https://komodo.example.com''" and key = "''fake-key''"
      and secret = "''fake-secret''" and rs' = ?rs and ident = "''id1''" and results = ?flat]
  from c [THEN conjunct1] h6 hp a
  have "snd (dispatch remote_mixed ''stack'' [JStr ''a'', JStr ''b''] 0 [])
      = Inr ([] @ concat (map items_of ?rs))"
    by blast
  then have d: "snd (dispatch remote_mixed ''stack'' [JStr ''a'', JStr ''b''] 0 []) = Inr ?flat"
    by (simp only: f append_Nil)
  from c [THEN conjunct2, THEN conjunct1] h1 h2 h3 hj h4 h5 h6 h7
  have "last (outputs (run ?e)) = JObj (updateStatusMap (concat (map items_of ?rs)))"
    by blast
  then have o: "last (outputs (run ?e)) = JObj [(''id2'', JStr ''Queued''), (''id1'', JStr ''Complete'')]"
    by (simp only: f m)
  from c [THEN conjunct2, THEN conjunct2, THEN conjunct1] hk
  have "map_of (updateStatusMap ?flat) ''id1'' =
      (case filter (\<lambda>item. hasOid item \<and> oid item = JStr ''id1'') ?flat of
         [] \<Rightarrow> None
       | x # xs \<Rightarrow> Some (get_field (last (x # xs)) ''status''))"
    by blast
  then have l: "map_of (updateStatusMap ?flat) ''id1'' = Some (JStr ''Complete'')"
    by (simp add: err_item_def update_item_def oid_def get_field_def is_string_def hasOid_def)
  from h1 h3 hj hp h6 a d o hk l show ?thesis by blast
qed

theorem results_flattened_last_wins_counterexample:
  "hasOid (update_item ''__proto__'' ''Complete'')
   \<and> oid (update_item ''__proto__'' ''Complete'') = JStr ''__proto__''
   \<and> get_field (update_item ''__proto__'' ''Complete'') ''status'' = JStr ''Complete''
   \<and> updateStatusMap [update_item ''__proto__'' ''Complete''] = []
   \<and> map_of (updateStatusMap [update_item ''__proto__'' ''Complete'']) ''__proto__'' = None"
  by (simp add: status_eval)

section \<open>The top-level boundary\<close>

text \<open>
  C9 (as amended). Whenever a value is thrown inside the \<^verbatim>\<open>try\<close> block (by input
  reading or parsing, by dispatch or by the summary write), nothing has been reported as
  failed before it, and the boundary reports according to what was thrown: for an
  instance of \<^verbatim>\<open>Error\<close>, the run is reported failed once, with that error's message,
  as the last effect of the run; for any other value nothing is reported.
\<close>

theorem thrown_error_is_reported:
  "snd (run_try e) = Inl err \<longrightarrow>
     failures (run e) = (case err of Error message \<Rightarrow> [message] | NonError _ \<Rightarrow> [])
     \<and> run e = fst (run_try e)
               @ (case err of Error message \<Rightarrow> [SetFailed message] | NonError _ \<Rightarrow> [])"
proof
  assume t: "snd (run_try e) = Inl err"
  then have "run e = fst (run_try e)
      @ (case err of Error message \<Rightarrow> [SetFailed message] | NonError _ \<Rightarrow> [])"
    by (cases "run_try e") (simp add: run_def catch_err_def)
  with run_failures [OF t]
  show "failures (run e) = (case err of Error message \<Rightarrow> [message] | NonError _ \<Rightarrow> [])
     \<and> run e = fst (run_try e)
               @ (case err of Error message \<Rightarrow> [SetFailed message] | NonError _ \<Rightarrow> [])"
    by simp
qed

theorem thrown_error_is_reported_witness:
  "snd (run_try empty_targets_denied_env) = Inl (Error ''EACCES: permission denied'')
   \<and> failures (run empty_targets_denied_env) = [''EACCES: permission denied'']
   \<and> last (run empty_targets_denied_env) = SetFailed ''EACCES: permission denied''"
proof -
  have h: "snd (run_try empty_targets_denied_env) = Inl (Error ''EACCES: permission denied'')"
    by (simp add: empty_targets_denied_env_def example_defs run_try_def action_simps
        fst_snd_actions patterns_join_cases nothing_to_update_def elements_def
        updateStatusMap_def writeStepSummary_def summary_markdown_empty write_denied_def)
  note c = thrown_error_is_reported
    [of empty_targets_denied_env "Error ''EACCES: permission denied''", rule_format, OF h]
  from c [THEN conjunct1]
  have f: "failures (run empty_targets_denied_env) = [''EACCES: permission denied'']"
    by simp
  from c [THEN conjunct2] have "run empty_targets_denied_env
      = fst (run_try empty_targets_denied_env) @ [SetFailed ''EACCES: permission denied'']"
    by simp
  then have "last (run empty_targets_denied_env) = SetFailed ''EACCES: permission denied''"
    by (simp only: last_snoc)
  with h f show ?thesis by blast
qed

theorem thrown_error_is_reported_counterexample:
  "snd (run_try (two_targets_env (remote_rejects_at 1 (NonError server_error))))
     = Inl (NonError server_error)
   \<and> failures (run (two_targets_env (remote_rejects_at 1 (NonError server_error)))) = []"
  by (simp add: two_targets_env_def example_defs run_eval remote_rejects_at_def
      dispatch.simps(2) executeOne_def push_result_def)

end
